theory Spec2Isabelle
  imports Main "HOL-Library.Sublist" "HOL-Library.AList"
begin

section \<open>JavaScript values\<close>

text \<open>
  Token payloads and HTTP response bodies are whatever \<^verbatim>\<open>JSON.parse\<close> yields, so they
  are modelled as untyped JavaScript values. Numbers are the integers (the \<^verbatim>\<open>IntDate\<close>
  format of the \<^verbatim>\<open>exp\<close> and \<^verbatim>\<open>iat\<close> claims); an object is the list of its own
  properties in insertion order, read with \<open>map_of\<close>.
\<close>

datatype jsval =
    JUndefined
  | JNull
  | JBool bool
  | JNum int
  | JStr string
  | JArr "jsval list"
  | JObj "(string \<times> jsval) list"

text \<open>
  The errors the two source files construct or let escape. The class
  \<^verbatim>\<open>UnauthorizedError\<close> (\<^verbatim>\<open>errors/UnauthorizedError.js\<close>) is not among the sources: an
  instance is represented by the object its constructor is given, which holds the error
  code, the description, the status code and, for a malformed token, the realm.
  \<open>TransportError\<close> stands for the error object of the HTTP library, \<open>TypeError\<close> for
  the exception of the language on a property read of \<^verbatim>\<open>undefined\<close> or \<^verbatim>\<open>null\<close> and on
  a call of something that is not a function.
\<close>

datatype error =
    UnauthorizedError jsval
  | TransportError string
  | Error string
  | TypeError

text \<open>ToBoolean: what \<^verbatim>\<open>!x\<close>, \<^verbatim>\<open>x && y\<close> and \<^verbatim>\<open>x || y\<close> test.\<close>

fun truthy :: "jsval \<Rightarrow> bool" where
  "truthy JUndefined = False"
| "truthy JNull = False"
| "truthy (JBool b) = b"
| "truthy (JNum n) = (n \<noteq> 0)"
| "truthy (JStr s) = (s \<noteq> [])"
| "truthy (JArr xs) = True"
| "truthy (JObj kvs) = True"

definition js_or :: "jsval \<Rightarrow> jsval \<Rightarrow> jsval" where
  "js_or a b = (if truthy a then a else b)"

text \<open>
  Optional strings of the typed configuration objects: \<open>None\<close> is \<^verbatim>\<open>undefined\<close>.
\<close>

definition truthy_str :: "string option \<Rightarrow> bool" where
  "truthy_str so = (case so of None \<Rightarrow> False | Some s \<Rightarrow> s \<noteq> [])"

definition str_or :: "string option \<Rightarrow> string option \<Rightarrow> string option" where
  "str_or a b = (if truthy_str a then a else b)"

definition js_of :: "string option \<Rightarrow> jsval" where
  "js_of so = (case so of None \<Rightarrow> JUndefined | Some s \<Rightarrow> JStr s)"

text \<open>
  Property read \<^verbatim>\<open>v.k\<close>. On \<^verbatim>\<open>undefined\<close> and \<^verbatim>\<open>null\<close> it throws a TypeError; on an
  object it is the own property or \<^verbatim>\<open>undefined\<close>; on the other values it is
  \<^verbatim>\<open>undefined\<close> for every name the source reads (none of them is a property of the
  String, Number, Boolean or Array prototypes).
\<close>

fun get :: "jsval \<Rightarrow> string \<Rightarrow> jsval" where
  "get (JObj kvs) k = (case map_of kvs k of None \<Rightarrow> JUndefined | Some v \<Rightarrow> v)"
| "get v k = JUndefined"

fun nullish :: "jsval \<Rightarrow> bool" where
  "nullish JUndefined = True"
| "nullish JNull = True"
| "nullish v = False"

definition property :: "jsval \<Rightarrow> string \<Rightarrow> error + jsval" where
  "property v k = (if nullish v then Inl TypeError else Inr (get v k))"

text \<open>
  Strict equality \<^verbatim>\<open>===\<close>. Primitives are compared by value; arrays and objects by
  reference, and the values compared in the source are never the same reference (one
  side is freshly parsed from the token or the response).
\<close>

fun strict_equals :: "jsval \<Rightarrow> jsval \<Rightarrow> bool" where
  "strict_equals JUndefined JUndefined = True"
| "strict_equals JNull JNull = True"
| "strict_equals (JBool a) (JBool b) = (a = b)"
| "strict_equals (JNum a) (JNum b) = (a = b)"
| "strict_equals (JStr a) (JStr b) = (a = b)"
| "strict_equals v w = False"

text \<open>
  \<^verbatim>\<open>String.prototype.indexOf\<close>: the position of the first occurrence of the pattern,
  \<open>-1\<close> when there is none.
\<close>

fun indexOf_from :: "string \<Rightarrow> string \<Rightarrow> int \<Rightarrow> int" where
  "indexOf_from [] pat i = (if pat = [] then i else - 1)"
| "indexOf_from (x # xs) pat i =
     (if prefix pat (x # xs) then i else indexOf_from xs pat (i + 1))"

definition indexOf :: "string \<Rightarrow> string \<Rightarrow> int" where
  "indexOf s pat = indexOf_from s pat 0"

text \<open>\<^verbatim>\<open>Array.prototype.indexOf\<close>: elements are compared with \<^verbatim>\<open>===\<close>.\<close>

fun array_indexOf_from :: "jsval list \<Rightarrow> jsval \<Rightarrow> int \<Rightarrow> int" where
  "array_indexOf_from [] v i = - 1"
| "array_indexOf_from (x # xs) v i =
     (if strict_equals x v then i else array_indexOf_from xs v (i + 1))"

definition array_indexOf :: "jsval list \<Rightarrow> jsval \<Rightarrow> int" where
  "array_indexOf xs v = array_indexOf_from xs v 0"

text \<open>
  \<^verbatim>\<open>String.prototype.split\<close> with a one-character separator: the pieces between the
  separators, so one more piece than there are separators.
\<close>

fun split :: "char \<Rightarrow> string \<Rightarrow> string list" where
  "split c [] = [[]]"
| "split c (x # xs) =
     (if x = c then [] # split c xs
      else (case split c xs of [] \<Rightarrow> [[x]] | seg # segs \<Rightarrow> (x # seg) # segs))"

section \<open>The environment\<close>

text \<open>
  What the code obtains from outside the two files: the clock
  (\<^verbatim>\<open>nowSeconds\<close> of \<^verbatim>\<open>time-utils.js\<close>), the library call
  \<^verbatim>\<open>JSON.parse(new Buffer(seg, 'base64').toString())\<close> (\<open>None\<close> when it throws), the
  number a non-number is converted to by the comparison, the answers of the network
  (\<open>post\<close> for the introspection request of superagent, \<open>request\<close> for the token
  request of request-promise), and \<^verbatim>\<open>qs.parse(url.parse(uri).query).code\<close>.
\<close>

datatype coerced = NaN | Number int | Throws

datatype response = Failure string | Response jsval

record introspection =
  url :: string
  user :: "string option"
  pass :: "string option"
  body :: jsval

record exchange =
  token_endpoint :: jsval
  grant_type :: jsval
  code :: jsval
  redirect_uri :: jsval
  auth_user :: "string option"
  auth_pass :: "string option"

record env =
  nowSeconds :: int
  parse_base64 :: "string \<Rightarrow> jsval option"
  to_number :: "jsval \<Rightarrow> coerced"
  post :: "introspection \<Rightarrow> response"
  query_code :: "string \<Rightarrow> jsval"
  request :: "exchange \<Rightarrow> response"

section \<open>lib/AccessToken.js\<close>

text \<open>
  The steps of a verification that the claims speak about: the call of
  \<^verbatim>\<open>AccessToken.decode\<close>, the introspection request, each claim check reached, and the
  request to the token endpoint.
  \<open>AccessToken_verify\<close> returns them, in the order the code executes them, with its
  outcome.
\<close>

datatype check = Issuer | Audience | Expiry | Scope

datatype event = Decode string | Introspect introspection | Check check | Exchange exchange

text \<open>
  The options of a verification are written by the calling program, not received from
  the network; they are typed as the specification's VerificationOptions, each field
  optional.
\<close>

record options =
  issuer :: "string option"
  client_id :: "string option"
  client_secret :: "string option"
  scope :: "string option"
  key :: jsval
  clients :: "string list option"

record decoded =
  header :: jsval
  payload :: jsval
  signature :: string

text \<open>\<^verbatim>\<open>AccessToken.decode(token, publickey)\<close>: the key is a parameter the body never reads.\<close>

definition decode :: "env \<Rightarrow> string \<Rightarrow> jsval \<Rightarrow> error + decoded" where
  "decode e token publickey =
     (let segments = split CHR ''.'' token in
      if length segments \<noteq> 3 then Inl (Error ''Invalid access token segments'')
      else
        let headerSeg = segments ! 0; payloadSeg = segments ! 1; signatureSeg = segments ! 2 in
        case parse_base64 e headerSeg of
          None \<Rightarrow> Inl (Error ''Unable to decode token'')
        | Some h \<Rightarrow>
            (case parse_base64 e payloadSeg of
               None \<Rightarrow> Inl (Error ''Unable to decode token'')
             | Some p \<Rightarrow> Inr \<lparr>header = h, payload = p, signature = signatureSeg\<rparr>))"

definition unauthorized :: "string \<Rightarrow> string \<Rightarrow> int \<Rightarrow> error" where
  "unauthorized err description status =
     UnauthorizedError (JObj [(''error'', JStr err), (''error_description'', JStr description),
       (''statusCode'', JNum status)])"

definition invalid_access_token :: error where
  "invalid_access_token =
     UnauthorizedError (JObj [(''realm'', JStr ''user''), (''error'', JStr ''invalid_token''),
       (''error_description'', JStr ''Invalid access token''), (''statusCode'', JNum 401)])"

text \<open>The first task of \<^verbatim>\<open>async.parallel\<close>: the local decoding of a token with a dot.\<close>

definition jwt_task :: "env \<Rightarrow> string \<Rightarrow> options \<Rightarrow> event list \<times> (error + decoded option)" where
  "jwt_task e token opts =
     (if indexOf token ''.'' \<noteq> - 1 then
        (case decode e token (key opts) of
           Inl err \<Rightarrow> ([Decode token], Inl invalid_access_token)
         | Inr at \<Rightarrow> ([Decode token], Inr (Some at)))
      else ([], Inr None))"

text \<open>
  \<^verbatim>\<open>options.issuer + '/token/verify'\<close>: an undefined issuer is concatenated as the text
  \<^verbatim>\<open>undefined\<close>.
\<close>

definition verify_url :: "string option \<Rightarrow> string" where
  "verify_url iss = (case iss of None \<Rightarrow> ''undefined'' | Some s \<Rightarrow> s) @ ''/token/verify''"

text \<open>The second task: the introspection of a token without a dot.\<close>

definition random_task :: "env \<Rightarrow> string \<Rightarrow> options \<Rightarrow> event list \<times> (error + jsval)" where
  "random_task e token opts =
     (if indexOf token ''.'' = - 1 then
        (let req = \<lparr>url = verify_url (issuer opts), user = client_id opts,
                    pass = client_secret opts, body = JObj [(''access_token'', JStr token)]\<rparr> in
         ([Introspect req],
          case post e req of
            Failure err \<Rightarrow> Inl (TransportError err)
          | Response b \<Rightarrow>
              if truthy b \<and> truthy (get b ''error'') then Inl (UnauthorizedError b)
              else Inr b))
      else ([], Inr JUndefined))"

text \<open>
  \<^verbatim>\<open>async.parallel\<close> starts both tasks in the order written and hands the final callback
  the first error, or else both results.
\<close>

record results =
  jwt :: "decoded option"
  random :: jsval

definition parallel :: "env \<Rightarrow> string \<Rightarrow> options \<Rightarrow> event list \<times> (error + results)" where
  "parallel e token opts =
     (let (ev1, r1) = jwt_task e token opts; (ev2, r2) = random_task e token opts in
      (ev1 @ ev2,
       case r1 of
         Inl err \<Rightarrow> Inl err
       | Inr j \<Rightarrow> (case r2 of Inl err \<Rightarrow> Inl err | Inr r \<Rightarrow> Inr \<lparr>jwt = j, random = r\<rparr>)))"

text \<open>\<^verbatim>\<open>result.random || result.jwt.payload\<close>\<close>

definition candidate_claims :: "results \<Rightarrow> error + jsval" where
  "candidate_claims result =
     (if truthy (random result) then Inr (random result)
      else (case jwt result of None \<Rightarrow> Inl TypeError | Some at \<Rightarrow> Inr (payload at)))"

text \<open>\<^verbatim>\<open>claims.iss !== issuer\<close>\<close>

definition mismatching_issuer :: "jsval \<Rightarrow> string option \<Rightarrow> bool" where
  "mismatching_issuer claims iss = (\<not> strict_equals (get claims ''iss'') (js_of iss))"

text \<open>\<^verbatim>\<open>clients && clients.indexOf(claims.aud) === -1\<close>\<close>

definition mismatching_audience :: "jsval \<Rightarrow> string list option \<Rightarrow> bool" where
  "mismatching_audience claims cs =
     (case cs of
        None \<Rightarrow> False
      | Some ids \<Rightarrow> array_indexOf (map JStr ids) (get claims ''aud'') = - 1)"

text \<open>
  \<^verbatim>\<open>claims.exp < nowSeconds()\<close>: a number is compared as it is, \<^verbatim>\<open>undefined\<close> is NaN
  (never less), \<^verbatim>\<open>null\<close> is 0, a boolean 0 or 1; a string, an array or an object is
  converted by the language.
\<close>

definition expired :: "env \<Rightarrow> jsval \<Rightarrow> error + bool" where
  "expired e claims =
     (case get claims ''exp'' of
        JNum n \<Rightarrow> Inr (n < nowSeconds e)
      | JUndefined \<Rightarrow> Inr False
      | JNull \<Rightarrow> Inr (0 < nowSeconds e)
      | JBool b \<Rightarrow> Inr ((if b then 1 else 0) < nowSeconds e)
      | v \<Rightarrow> (case to_number e v of
                NaN \<Rightarrow> Inr False
              | Number n \<Rightarrow> Inr (n < nowSeconds e)
              | Throws \<Rightarrow> Inl TypeError))"

text \<open>
  \<^verbatim>\<open>scope && claims.scope.indexOf(scope) === -1\<close>: a string is searched for the
  substring, an array for the element; \<^verbatim>\<open>undefined\<close> and \<^verbatim>\<open>null\<close> have no properties,
  and the other values have no function \<^verbatim>\<open>indexOf\<close>.
\<close>

definition insufficient_scope :: "jsval \<Rightarrow> string option \<Rightarrow> error + bool" where
  "insufficient_scope claims sc =
     (case sc of
        None \<Rightarrow> Inr False
      | Some s \<Rightarrow>
          if s = [] then Inr False
          else (case get claims ''scope'' of
                  JStr cs \<Rightarrow> Inr (indexOf cs s = - 1)
                | JArr xs \<Rightarrow> Inr (array_indexOf xs (JStr s) = - 1)
                | v \<Rightarrow> Inl TypeError))"

datatype outcome = Rejected error | Resolved jsval | Thrown error

text \<open>
  The final callback, from \<^verbatim>\<open>var claims = ...\<close> on. A check is recorded when its
  comparison is evaluated: the issuer and expiry comparisons always are, the audience
  search only when \<^verbatim>\<open>clients\<close> is set, the scope search only when \<^verbatim>\<open>scope\<close> is a
  non-empty string.
\<close>

definition audience_events :: "options \<Rightarrow> event list" where
  "audience_events opts = (case clients opts of None \<Rightarrow> [] | Some ids \<Rightarrow> [Check Audience])"

definition scope_events :: "options \<Rightarrow> event list" where
  "scope_events opts = (if truthy_str (scope opts) then [Check Scope] else [])"

definition validate :: "env \<Rightarrow> options \<Rightarrow> jsval \<Rightarrow> event list \<times> outcome" where
  "validate e opts claims =
     (if nullish claims then ([Check Issuer], Thrown TypeError)
      else if mismatching_issuer claims (issuer opts) then
        ([Check Issuer],
         Rejected (unauthorized ''invalid_token'' ''Mismatching issuer'' 403))
      else if mismatching_audience claims (clients opts) then
        (Check Issuer # audience_events opts,
         Rejected (unauthorized ''invalid_token'' ''Mismatching audience'' 403))
      else
        (case expired e claims of
           Inl err \<Rightarrow> (Check Issuer # audience_events opts @ [Check Expiry], Thrown err)
         | Inr True \<Rightarrow>
             (Check Issuer # audience_events opts @ [Check Expiry],
              Rejected (unauthorized ''invalid_token'' ''Expired access token'' 403))
         | Inr False \<Rightarrow>
             (Check Issuer # audience_events opts @ [Check Expiry] @ scope_events opts,
              case insufficient_scope claims (scope opts) of
                Inl err \<Rightarrow> Thrown err
              | Inr True \<Rightarrow>
                  Rejected (unauthorized ''insufficient_scope'' ''Insufficient scope'' 403)
              | Inr False \<Rightarrow> Resolved claims)))"

definition AccessToken_verify :: "env \<Rightarrow> string \<Rightarrow> options \<Rightarrow> event list \<times> outcome" where
  "AccessToken_verify e token opts =
     (case parallel e token opts of
        (ev, Inl err) \<Rightarrow> (ev, Rejected err)
      | (ev, Inr result) \<Rightarrow>
          (case candidate_claims result of
             Inl err \<Rightarrow> (ev, Thrown err)
           | Inr claims \<Rightarrow>
               (let (ev', out) = validate e opts claims in (ev @ ev', out))))"

section \<open>The client\<close>

text \<open>
  The fields of an \<^verbatim>\<open>AnvilConnect\<close> instance that the functions below read. The
  constructor always sets \<^verbatim>\<open>this.scope\<close> to a string; \<^verbatim>\<open>this.configuration\<close> and
  \<^verbatim>\<open>this.jwks\<close> are \<^verbatim>\<open>undefined\<close> until \<^verbatim>\<open>discover\<close> and \<^verbatim>\<open>getJWKs\<close> have stored
  the provider's answers.
\<close>

record client =
  this_issuer :: "string option"
  this_client_id :: "string option"
  this_client_secret :: "string option"
  this_redirect_uri :: "string option"
  this_scope :: string
  configuration :: jsval
  jwks :: jsval

subsection \<open>authorizationParams\<close>

definition optionalParameters :: "string list" where
  "optionalParameters =
     [''email'', ''password'', ''provider'', ''state'', ''response_mode'', ''nonce'',
      ''display'', ''prompt'', ''max_age'', ''ui_locales'', ''id_token_hint'', ''login_hint'',
      ''acr_values'']"

text \<open>
  The body of the \<^verbatim>\<open>forEach\<close>. An assignment \<^verbatim>\<open>params[param] = v\<close> replaces the value
  of a property the object has and appends the property otherwise, which is
  \<open>AList.update\<close>.
\<close>

definition assign_optional ::
  "jsval \<Rightarrow> string \<Rightarrow> (string \<times> jsval) list \<Rightarrow> (string \<times> jsval) list" where
  "assign_optional opts param params =
     (if truthy (get opts param) then AList.update param (get opts param) params else params)"

definition authorizationParams :: "client \<Rightarrow> jsval \<Rightarrow> (string \<times> jsval) list" where
  "authorizationParams c options0 =
     (let opts = js_or options0 (JObj []);
          params =
            [(''response_type'', js_or (get opts ''response_type'') (JStr ''code'')),
             (''client_id'', js_of (this_client_id c)),
             (''redirect_uri'', js_or (get opts ''redirect_uri'') (js_of (this_redirect_uri c))),
             (''scope'', js_or (get opts ''scope'') (JStr (this_scope c)))]
      in fold (assign_optional opts) optionalParameters params)"

subsection \<open>authorizationUri\<close>

fun typeof :: "jsval \<Rightarrow> string" where
  "typeof JUndefined = ''undefined''"
| "typeof JNull = ''object''"
| "typeof (JBool b) = ''boolean''"
| "typeof (JNum n) = ''number''"
| "typeof (JStr s) = ''string''"
| "typeof (JArr xs) = ''object''"
| "typeof (JObj kvs) = ''object''"

text \<open>
  \<open>authorizationUri\<close> returns the object that the code hands to \<^verbatim>\<open>url.format\<close>: the
  parsed authorization endpoint with its \<^verbatim>\<open>pathname\<close> and \<^verbatim>\<open>query\<close> replaced.
  \<^verbatim>\<open>url.parse\<close> throws on an argument that is not a string, and \<^verbatim>\<open>typeof null\<close> is
  \<^verbatim>\<open>'object'\<close>, so that \<^verbatim>\<open>null.endpoint\<close> throws.
\<close>

record url_object =
  parsed :: string
  pathname :: jsval
  query :: "(string \<times> jsval) list"

definition authorizationUri :: "client \<Rightarrow> jsval \<Rightarrow> error + url_object" where
  "authorizationUri c options0 =
     (case property (configuration c) ''authorization_endpoint'' of
        Inl err \<Rightarrow> Inl err
      | Inr (JStr ep) \<Rightarrow>
          if typeof options0 = ''string'' then
            Inr \<lparr>parsed = ep, pathname = options0, query = authorizationParams c (JObj [])\<rparr>
          else if typeof options0 = ''object'' then
            (case property options0 ''endpoint'' of
               Inl err \<Rightarrow> Inl err
             | Inr endpoint \<Rightarrow>
                 Inr \<lparr>parsed = ep, pathname = endpoint, query = authorizationParams c options0\<rparr>)
          else
            Inr \<lparr>parsed = ep, pathname = JStr ''authorize'',
                 query = authorizationParams c (JObj [])\<rparr>
      | Inr v \<Rightarrow> Inl TypeError)"

subsection \<open>token\<close>

text \<open>
  The authorization code: \<^verbatim>\<open>options.code\<close>, or else the \<^verbatim>\<open>code\<close> parameter of
  \<^verbatim>\<open>options.responseUri\<close>.
\<close>

definition authorization_code :: "env \<Rightarrow> jsval \<Rightarrow> error + jsval" where
  "authorization_code e opts =
     (if \<not> truthy (get opts ''code'') \<and> truthy (get opts ''responseUri'') then
        (case get opts ''responseUri'' of
           JStr uri \<Rightarrow> Inr (query_code e uri)
         | v \<Rightarrow> Inl TypeError)
      else Inr (get opts ''code''))"

text \<open>
  \<^verbatim>\<open>token(options)\<close> up to the answer of the token endpoint. What the code does with a
  successful answer is the parameter \<open>verify_tokens\<close>: it verifies both tokens, the ID
  token by \<^verbatim>\<open>lib/IDToken\<close>, which is not among the sources, and reports whichever
  verification fails first. An exception thrown before the promise is created is the
  outcome \<open>Thrown\<close>; inside the promise, a missing code is a rejection.
\<close>

definition token ::
  "env \<Rightarrow> (jsval \<Rightarrow> event list \<times> outcome) \<Rightarrow> client \<Rightarrow> jsval \<Rightarrow> event list \<times> outcome" where
  "token e verify_tokens c options0 =
     (let opts = js_or options0 (JObj []) in
      case property (configuration c) ''token_endpoint'' of
        Inl err \<Rightarrow> ([], Thrown err)
      | Inr uri \<Rightarrow>
          (case authorization_code e opts of
             Inl err \<Rightarrow> ([], Thrown err)
           | Inr cd \<Rightarrow>
               if \<not> truthy cd then ([], Rejected (Error ''Missing authorization code''))
               else
                 (let req = \<lparr>token_endpoint = uri,
                             grant_type = js_or (get opts ''grant_type'') (JStr ''authorization_code''),
                             code = cd,
                             redirect_uri = js_or (get opts ''redirect_uri'') (js_of (this_redirect_uri c)),
                             auth_user = this_client_id c,
                             auth_pass = this_client_secret c\<rparr> in
                  case request e req of
                    Failure err \<Rightarrow> ([Exchange req], Rejected (TransportError err))
                  | Response data \<Rightarrow>
                      (let (ev, out) = verify_tokens data in (Exchange req # ev, out)))))"

subsection \<open>verify\<close>

definition no_options :: options where
  "no_options =
     \<lparr>issuer = None, client_id = None, client_secret = None, scope = None, key = JUndefined,
      clients = None\<rparr>"

text \<open>
  \<^verbatim>\<open>verify(token, options)\<close>: the defaults are filled in from the client, and
  \<^verbatim>\<open>this.jwks.sig\<close> is read (and throws without a key set) only when the caller gave no
  key.
\<close>

definition default_options :: "client \<Rightarrow> options option \<Rightarrow> error + options" where
  "default_options c options0 =
     (let opts = (case options0 of None \<Rightarrow> no_options | Some given \<Rightarrow> given);
          opts = opts\<lparr>issuer := str_or (issuer opts) (this_issuer c)\<rparr>;
          opts = opts\<lparr>client_id := str_or (client_id opts) (this_client_id c)\<rparr>;
          opts = opts\<lparr>client_secret := str_or (client_secret opts) (this_client_secret c)\<rparr>;
          opts = opts\<lparr>scope := str_or (scope opts) (Some (this_scope c))\<rparr>
      in if truthy (key opts) then Inr opts
         else (case property (jwks c) ''sig'' of
                 Inl err \<Rightarrow> Inl err
               | Inr k \<Rightarrow> Inr (opts\<lparr>key := k\<rparr>)))"

text \<open>
  \<^verbatim>\<open>AccessToken.verify\<close> is called inside the executor of the promise that \<^verbatim>\<open>verify\<close>
  returns. For a token with a dot the whole verification runs before the executor
  returns, so an exception thrown in it rejects the promise. For a token without a dot
  the final callback runs later, called by the HTTP library, and an exception thrown
  there is outside the executor: it is not a rejection of the promise.
\<close>

fun executor :: "string \<Rightarrow> event list \<times> outcome \<Rightarrow> event list \<times> outcome" where
  "executor access_token (ev, Thrown err) =
     (if indexOf access_token ''.'' \<noteq> - 1 then (ev, Rejected err) else (ev, Thrown err))"
| "executor access_token (ev, out) = (ev, out)"

text \<open>
  The defaults are computed before the promise is created, so the exception of
  \<^verbatim>\<open>this.jwks.sig\<close> on a client without keys is thrown by \<^verbatim>\<open>verify\<close> itself.
\<close>

definition verify :: "env \<Rightarrow> client \<Rightarrow> string \<Rightarrow> options option \<Rightarrow> event list \<times> outcome" where
  "verify e c access_token options0 =
     (case default_options c options0 of
        Inl err \<Rightarrow> ([], Thrown err)
      | Inr opts \<Rightarrow> executor access_token (AccessToken_verify e access_token opts))"

section \<open>The specification's reading of claim validation\<close>

text \<open>
  The specification describes claim validation as a list of checks "performed in this
  fixed order, first failure wins". \<open>first_failure\<close> is that description: it walks a
  list of checks, each with the truth value of "this check fails" and the error it
  rejects with, stops at the first failing one, and resolves with the claims when none
  fails. It is compared with \<open>validate\<close> below.
\<close>

fun first_failure :: "(check \<times> bool \<times> error) list \<Rightarrow> jsval \<Rightarrow> event list \<times> outcome" where
  "first_failure [] claims = ([], Resolved claims)"
| "first_failure ((c, fails, err) # rest) claims =
     (if fails then ([Check c], Rejected err)
      else (case first_failure rest claims of (ev, out) \<Rightarrow> (Check c # ev, out)))"

section \<open>Concrete inputs\<close>

text \<open>
  A provider \<^verbatim>\<open>https://idp.example\<close> at time 1000. The segments are the base64 texts of
  \<^verbatim>\<open>{"alg":"RS256"}\<close> and of three payloads: the claims of client \<^verbatim>\<open>c1\<close>, the same
  claims issued to another audience, and expired claims of a foreign issuer.
\<close>

definition example_header :: string where
  "example_header = ''eyJhbGciOiJSUzI1NiJ9''"

definition example_payload :: string where
  "example_payload =
     ''eyJpc3MiOiJodHRwczovL2lkcC5leGFtcGxlIiwiYXVkIjoiYzEiLCJleHAiOjIwMDAsInNjb3BlIjoib3BlbmlkIHByb2ZpbGUifQ''"

definition example_claims :: jsval where
  "example_claims =
     JObj [(''iss'', JStr ''https://idp.example''), (''aud'', JStr ''c1''), (''exp'', JNum 2000),
           (''scope'', JStr ''openid profile'')]"

definition other_audience_payload :: string where
  "other_audience_payload =
     ''eyJpc3MiOiJodHRwczovL2lkcC5leGFtcGxlIiwiYXVkIjoic29tZW9uZS1lbHNlIiwiZXhwIjoyMDAwLCJzY29wZSI6Im9wZW5pZCBwcm9maWxlIn0''"

definition other_audience_claims :: jsval where
  "other_audience_claims =
     JObj [(''iss'', JStr ''https://idp.example''), (''aud'', JStr ''someone-else''),
           (''exp'', JNum 2000), (''scope'', JStr ''openid profile'')]"

definition foreign_expired_payload :: string where
  "foreign_expired_payload =
     ''eyJpc3MiOiJodHRwczovL2V2aWwuZXhhbXBsZSIsImF1ZCI6ImMxIiwiZXhwIjo1MDAsInNjb3BlIjoib3BlbmlkIHByb2ZpbGUifQ''"

definition foreign_expired_claims :: jsval where
  "foreign_expired_claims =
     JObj [(''iss'', JStr ''https://evil.example''), (''aud'', JStr ''c1''), (''exp'', JNum 500),
           (''scope'', JStr ''openid profile'')]"

definition example_env :: env where
  "example_env =
     \<lparr>nowSeconds = 1000,
      parse_base64 = (\<lambda>seg.
        if seg = example_header then Some (JObj [(''alg'', JStr ''RS256'')])
        else if seg = example_payload then Some example_claims
        else if seg = other_audience_payload then Some other_audience_claims
        else if seg = foreign_expired_payload then Some foreign_expired_claims
        else None),
      to_number = (\<lambda>v. NaN),
      post = (\<lambda>req.
        if body req = JObj [(''access_token'', JStr ''opaque123'')] then Response example_claims
        else Response (JObj [(''error'', JStr ''invalid_token''), (''statusCode'', JNum 401)])),
      query_code = (\<lambda>uri. JUndefined),
      request = (\<lambda>req. Failure ''ECONNREFUSED'')\<rparr>"

definition example_token :: string where
  "example_token = example_header @ ''.'' @ example_payload @ ''.c2lnbmF0dXJl''"

definition forged_token :: string where
  "forged_token = example_header @ ''.'' @ example_payload @ ''.Zm9yZ2Vk''"

definition other_audience_token :: string where
  "other_audience_token = example_header @ ''.'' @ other_audience_payload @ ''.c2lnbmF0dXJl''"

definition foreign_expired_token :: string where
  "foreign_expired_token = example_header @ ''.'' @ foreign_expired_payload @ ''.c2lnbmF0dXJl''"

definition example_jwk :: jsval where
  "example_jwk =
     JObj [(''kty'', JStr ''RSA''), (''use'', JStr ''sig''), (''alg'', JStr ''RS256''),
           (''n'', JStr ''sXchDaQebHnPiGvyDOAT4saGEUetSyo9MKLOoWFsueri''), (''e'', JStr ''AQAB'')]"

definition example_options :: options where
  "example_options =
     \<lparr>issuer = Some ''https://idp.example'', client_id = Some ''c1'', client_secret = Some ''s1'',
      scope = Some ''openid'', key = example_jwk, clients = Some [''c1'']\<rparr>"

text \<open>
  Three more payloads that a sender can put into a token: the claims of client
  \<^verbatim>\<open>c1\<close> without a \<^verbatim>\<open>scope\<close>, the JSON text \<^verbatim>\<open>null\<close>, and the claims without an
  \<^verbatim>\<open>exp\<close>. The provider answers the introspection of \<^verbatim>\<open>opaque456\<close> with claims
  without a \<^verbatim>\<open>scope\<close>.
\<close>

definition no_scope_payload :: string where
  "no_scope_payload = ''eyJpc3MiOiJodHRwczovL2lkcC5leGFtcGxlIiwiYXVkIjoiYzEiLCJleHAiOjIwMDB9''"

definition no_scope_claims :: jsval where
  "no_scope_claims =
     JObj [(''iss'', JStr ''https://idp.example''), (''aud'', JStr ''c1''), (''exp'', JNum 2000)]"

definition null_payload :: string where
  "null_payload = ''bnVsbA''"

definition no_exp_payload :: string where
  "no_exp_payload =
     ''eyJpc3MiOiJodHRwczovL2lkcC5leGFtcGxlIiwiYXVkIjoiYzEiLCJzY29wZSI6Im9wZW5pZCBwcm9maWxlIn0''"

definition no_exp_claims :: jsval where
  "no_exp_claims =
     JObj [(''iss'', JStr ''https://idp.example''), (''aud'', JStr ''c1''),
           (''scope'', JStr ''openid profile'')]"

definition hostile_env :: env where
  "hostile_env =
     example_env
       \<lparr>parse_base64 := (\<lambda>seg.
          if seg = no_scope_payload then Some no_scope_claims
          else if seg = null_payload then Some JNull
          else if seg = no_exp_payload then Some no_exp_claims
          else parse_base64 example_env seg),
        post := (\<lambda>req.
          if body req = JObj [(''access_token'', JStr ''opaque456'')] then Response no_scope_claims
          else post example_env req)\<rparr>"

definition no_scope_token :: string where
  "no_scope_token = example_header @ ''.'' @ no_scope_payload @ ''.c2lnbmF0dXJl''"

definition null_payload_token :: string where
  "null_payload_token = example_header @ ''.'' @ null_payload @ ''.c2lnbmF0dXJl''"

definition no_exp_token :: string where
  "no_exp_token = example_header @ ''.'' @ no_exp_payload @ ''.c2lnbmF0dXJl''"

definition example_client :: client where
  "example_client =
     \<lparr>this_issuer = Some ''https://idp.example'', this_client_id = Some ''c1'',
      this_client_secret = Some ''s1'', this_redirect_uri = Some ''https://app.example/cb'',
      this_scope = ''openid profile'',
      configuration =
        JObj [(''issuer'', JStr ''https://idp.example''),
              (''authorization_endpoint'', JStr ''https://idp.example/authorize''),
              (''token_endpoint'', JStr ''https://idp.example/token''),
              (''jwks_uri'', JStr ''https://idp.example/jwks'')],
      jwks = JObj [(''keys'', JArr [example_jwk]), (''sig'', example_jwk)]\<rparr>"

section \<open>Strings, arrays and segments\<close>

text \<open>
  \<open>indexOf\<close> finds nothing exactly when the pattern is not a contiguous part of the
  string, and the array search exactly when no element is the value.
\<close>

lemma indexOf_from_found: "0 \<le> i \<Longrightarrow> (indexOf_from s pat i = - 1) = (\<not> sublist pat s)"
proof (induction s arbitrary: i)
  case Nil
  then show ?case by auto
next
  case (Cons x xs)
  then show ?case by (auto simp: sublist_Cons_right)
qed

lemma indexOf_none: "(indexOf s pat = - 1) = (\<not> sublist pat s)"
  by (simp add: indexOf_def indexOf_from_found)

lemma sublist_single: "sublist [c] s = (c \<in> set s)"
  by (induction s) (auto simp: sublist_Cons_right)

lemma indexOf_dot: "(indexOf tok ''.'' = - 1) = (CHR ''.'' \<notin> set tok)"
  by (simp add: indexOf_none sublist_single)

lemma sublist_eval:
  "sublist [] ys = True"
  "sublist (x # xs) [] = False"
  "sublist (x # xs) (y # ys) = (prefix (x # xs) (y # ys) \<or> sublist (x # xs) ys)"
  by (simp_all add: sublist_Cons_right)

lemma array_indexOf_from_none:
  "0 \<le> i \<Longrightarrow> (array_indexOf_from xs v i = - 1) = (\<forall>x \<in> set xs. \<not> strict_equals x v)"
  by (induction xs arbitrary: i) auto

lemma strict_equals_JStr: "strict_equals (JStr s) v = (v = JStr s)"
  by (cases v) auto

lemma strict_equals_JStr2: "strict_equals v (JStr s) = (v = JStr s)"
  by (cases v) auto

lemma strict_equals_js_of: "strict_equals v (js_of so) = (v = js_of so)"
  by (cases v; cases so) (auto simp: js_of_def)

lemma clients_indexOf_none: "(array_indexOf (map JStr ids) v = - 1) = (v \<notin> JStr ` set ids)"
  by (auto simp: array_indexOf_def array_indexOf_from_none strict_equals_JStr)

text \<open>
  A token splits into three segments exactly when it has two dots.
\<close>

lemma split_not_Nil: "split c s \<noteq> []"
  by (induction s) (auto split: list.splits)

lemma length_split: "length (split c s) = Suc (count_list s c)"
  by (induction s) (auto split: list.splits simp: split_not_Nil)

lemma split_no_separator: "c \<notin> set s \<Longrightarrow> split c s = [s]"
  by (induction s) auto

lemma split_at_separator: "c \<notin> set a \<Longrightarrow> split c (a @ c # rest) = a # split c rest"
  by (induction a) auto

lemma split_three:
  "CHR ''.'' \<notin> set a \<Longrightarrow> CHR ''.'' \<notin> set b \<Longrightarrow> CHR ''.'' \<notin> set s \<Longrightarrow>
   split CHR ''.'' (a @ ''.'' @ b @ ''.'' @ s) = [a, b, s]"
  by (simp add: split_at_separator split_no_separator)

section \<open>The two paths\<close>

lemma parallel_structured:
  "CHR ''.'' \<in> set tok \<Longrightarrow>
   parallel e tok opts =
     ([Decode tok],
      case decode e tok (key opts) of
        Inl err \<Rightarrow> Inl invalid_access_token
      | Inr at \<Rightarrow> Inr \<lparr>jwt = Some at, random = JUndefined\<rparr>)"
  by (simp add: parallel_def jwt_task_def random_task_def indexOf_dot split: sum.splits)

lemma parallel_opaque:
  "CHR ''.'' \<notin> set tok \<Longrightarrow>
   parallel e tok opts =
     (let req = \<lparr>url = verify_url (issuer opts), user = client_id opts,
                 pass = client_secret opts, body = JObj [(''access_token'', JStr tok)]\<rparr> in
      ([Introspect req],
       case post e req of
         Failure err \<Rightarrow> Inl (TransportError err)
       | Response b \<Rightarrow>
           if truthy b \<and> truthy (get b ''error'') then Inl (UnauthorizedError b)
           else Inr \<lparr>jwt = None, random = b\<rparr>))"
  by (simp add: parallel_def jwt_task_def random_task_def indexOf_dot Let_def split: response.splits)

lemma parallel_events: "set (fst (parallel e tok opts)) \<inter> range Check = {}"
  by (auto simp: parallel_def jwt_task_def random_task_def Let_def split: sum.splits)

lemma verify_resolved:
  "parallel e tok opts = (ev, Inr result) \<Longrightarrow> candidate_claims result = Inr claims \<Longrightarrow>
   AccessToken_verify e tok opts = (ev @ fst (validate e opts claims), snd (validate e opts claims))"
  by (simp add: AccessToken_verify_def split_beta)

lemma verify_failed:
  "parallel e tok opts = (ev, Inl err) \<Longrightarrow> AccessToken_verify e tok opts = (ev, Rejected err)"
  by (simp add: AccessToken_verify_def)

lemma decode_malformed:
  assumes "length (split CHR ''.'' tok) \<noteq> 3 \<or>
           parse_base64 e (split CHR ''.'' tok ! 0) = None \<or>
           parse_base64 e (split CHR ''.'' tok ! 1) = None"
  shows "\<exists>err. decode e tok k = Inl err"
  using assms by (auto simp: decode_def Let_def split: option.splits)

lemma decode_three:
  assumes "CHR ''.'' \<notin> set a" "CHR ''.'' \<notin> set b" "CHR ''.'' \<notin> set s"
    and "parse_base64 e a = Some h" "parse_base64 e b = Some p"
  shows "decode e (a @ ''.'' @ b @ ''.'' @ s) k = Inr \<lparr>header = h, payload = p, signature = s\<rparr>"
  using assms(4,5) split_three[OF assms(1,2,3)] by (simp add: decode_def)

lemma decode_signature:
  assumes "CHR ''.'' \<notin> set a" "CHR ''.'' \<notin> set b" "CHR ''.'' \<notin> set s"
  shows "decode e (a @ ''.'' @ b @ ''.'' @ s) k =
     (case parse_base64 e a of
        None \<Rightarrow> Inl (Error ''Unable to decode token'')
      | Some h \<Rightarrow>
          (case parse_base64 e b of
             None \<Rightarrow> Inl (Error ''Unable to decode token'')
           | Some p \<Rightarrow> Inr \<lparr>header = h, payload = p, signature = s\<rparr>))"
  using split_three[OF assms] by (simp add: decode_def)

section \<open>The claim checks\<close>

lemma mismatching_issuer_iff:
  "mismatching_issuer claims iss = (get claims ''iss'' \<noteq> js_of iss)"
  by (simp add: mismatching_issuer_def strict_equals_js_of)

lemma mismatching_audience_iff:
  "mismatching_audience claims cs = (\<exists>ids. cs = Some ids \<and> get claims ''aud'' \<notin> JStr ` set ids)"
  by (cases cs) (simp_all add: mismatching_audience_def clients_indexOf_none)

lemma expired_number: "get claims ''exp'' = JNum x \<Longrightarrow> expired e claims = Inr (x < nowSeconds e)"
  by (simp add: expired_def)

lemma insufficient_scope_string:
  "get claims ''scope'' = JStr cs \<Longrightarrow>
   insufficient_scope claims sc = Inr (\<exists>s. sc = Some s \<and> s \<noteq> [] \<and> \<not> sublist s cs)"
  by (cases sc) (simp_all add: insufficient_scope_def indexOf_none)

lemma scope_not_required:
  "\<not> truthy_str sc \<Longrightarrow> insufficient_scope claims sc = Inr False"
  by (cases sc) (auto simp: insufficient_scope_def truthy_str_def)

lemma get_not_nullish: "get claims k = JNum x \<Longrightarrow> \<not> nullish claims"
  by (cases claims) auto

lemma unauthorized_inject:
  "(unauthorized a b c = unauthorized a' b' c') = (a = a' \<and> b = b' \<and> c = c')"
  by (auto simp: unauthorized_def)

lemma validate_number:
  assumes "get claims ''exp'' = JNum x"
  shows "validate e opts claims =
     (if get claims ''iss'' \<noteq> js_of (issuer opts) then
        ([Check Issuer], Rejected (unauthorized ''invalid_token'' ''Mismatching issuer'' 403))
      else if \<exists>ids. clients opts = Some ids \<and> get claims ''aud'' \<notin> JStr ` set ids then
        (Check Issuer # audience_events opts,
         Rejected (unauthorized ''invalid_token'' ''Mismatching audience'' 403))
      else if x < nowSeconds e then
        (Check Issuer # audience_events opts @ [Check Expiry],
         Rejected (unauthorized ''invalid_token'' ''Expired access token'' 403))
      else
        (Check Issuer # audience_events opts @ [Check Expiry] @ scope_events opts,
         case insufficient_scope claims (scope opts) of
           Inl err \<Rightarrow> Thrown err
         | Inr True \<Rightarrow> Rejected (unauthorized ''insufficient_scope'' ''Insufficient scope'' 403)
         | Inr False \<Rightarrow> Resolved claims))"
proof -
  have n: "\<not> nullish claims" by (rule get_not_nullish[OF assms])
  show ?thesis
    unfolding validate_def mismatching_issuer_iff mismatching_audience_iff
      expired_number[OF assms]
    using n by (cases "x < nowSeconds e") auto
qed

lemma validate_first_failure:
  assumes "get claims ''exp'' = JNum x" and "get claims ''scope'' = JStr cs"
  shows "validate e opts claims =
     first_failure
       ([(Issuer, get claims ''iss'' \<noteq> js_of (issuer opts),
          unauthorized ''invalid_token'' ''Mismatching issuer'' 403)] @
        (case clients opts of
           None \<Rightarrow> []
         | Some ids \<Rightarrow>
             [(Audience, get claims ''aud'' \<notin> JStr ` set ids,
               unauthorized ''invalid_token'' ''Mismatching audience'' 403)]) @
        [(Expiry, x < nowSeconds e,
          unauthorized ''invalid_token'' ''Expired access token'' 403)] @
        (case scope opts of
           None \<Rightarrow> []
         | Some s \<Rightarrow>
             if s = [] then []
             else [(Scope, \<not> sublist s cs,
                    unauthorized ''insufficient_scope'' ''Insufficient scope'' 403)]))
       claims"
proof (cases "get claims ''iss'' \<noteq> js_of (issuer opts)")
  case True
  then show ?thesis by (simp add: validate_number[OF assms(1)])
next
  case iss: False
  show ?thesis
  proof (cases "clients opts")
    case None
    show ?thesis
    proof (cases "scope opts")
      case sn: None
      show ?thesis using iss None sn
        by (simp add: validate_number[OF assms(1)] insufficient_scope_string[OF assms(2)]
            audience_events_def scope_events_def truthy_str_def)
    next
      case (Some s)
      show ?thesis using iss None Some
        by (simp add: validate_number[OF assms(1)] insufficient_scope_string[OF assms(2)]
            audience_events_def scope_events_def truthy_str_def)
    qed
  next
    case (Some ids)
    note cl = Some
    show ?thesis
    proof (cases "scope opts")
      case sn: None
      show ?thesis using iss cl sn
        by (simp add: validate_number[OF assms(1)] insufficient_scope_string[OF assms(2)]
            audience_events_def scope_events_def truthy_str_def)
    next
      case (Some s)
      show ?thesis using iss cl Some
        by (simp add: validate_number[OF assms(1)] insufficient_scope_string[OF assms(2)]
            audience_events_def scope_events_def truthy_str_def)
    qed
  qed
qed

lemma validate_insufficient_only_if:
  assumes "snd (validate e opts claims) =
             Rejected (unauthorized ''insufficient_scope'' ''Insufficient scope'' 403)"
  shows "insufficient_scope claims (scope opts) = Inr True"
  using assms
  by (auto simp: validate_def unauthorized_inject split: if_splits sum.splits bool.splits)

lemma validate_key: "validate e (opts\<lparr>key := k\<rparr>) claims = validate e opts claims"
  by (simp add: validate_def audience_events_def scope_events_def
      cong: sum.case_cong bool.case_cong)

text \<open>
  The events of a verification: those of the path taken, then the checks.
\<close>

lemma validate_events: "set (fst (validate e opts claims)) \<subseteq> range Check"
  by (auto simp: validate_def audience_events_def scope_events_def
      split: sum.splits bool.splits option.splits if_splits)

lemma validate_no_scope_event:
  "\<not> truthy_str (scope opts) \<Longrightarrow> Check Scope \<notin> set (fst (validate e opts claims))"
  by (auto simp: validate_def audience_events_def scope_events_def
      split: sum.splits bool.splits option.splits if_splits)

lemma validate_no_audience_event:
  "clients opts = None \<Longrightarrow> Check Audience \<notin> set (fst (validate e opts claims))"
  by (auto simp: validate_def audience_events_def scope_events_def
      split: sum.splits bool.splits option.splits if_splits)

lemma validate_no_audience_rejection:
  "clients opts = None \<Longrightarrow>
   snd (validate e opts claims) \<noteq> Rejected (unauthorized ''invalid_token'' ''Mismatching audience'' 403)"
  by (auto simp: validate_def mismatching_audience_def unauthorized_inject
      split: sum.splits bool.splits if_splits)

lemma verify_events:
  "fst (AccessToken_verify e tok opts) =
     fst (parallel e tok opts) @
     (case snd (parallel e tok opts) of
        Inl err \<Rightarrow> []
      | Inr result \<Rightarrow>
          (case candidate_claims result of
             Inl err \<Rightarrow> []
           | Inr claims \<Rightarrow> fst (validate e opts claims)))"
  by (cases "parallel e tok opts")
     (auto simp: AccessToken_verify_def split_beta split: sum.splits)

lemma verify_events_subset:
  "set (fst (AccessToken_verify e tok opts)) \<subseteq> set (fst (parallel e tok opts)) \<union> range Check"
  using validate_events[of e opts]
  by (auto simp: verify_events split: sum.splits)

lemma verify_events_no_audience:
  assumes "clients opts = None"
  shows "Check Audience \<notin> set (fst (AccessToken_verify e tok opts))"
  using validate_no_audience_event[OF assms, of e] parallel_events[of e tok opts]
  by (auto simp: verify_events split: sum.splits)

lemma verify_structured:
  assumes "CHR ''.'' \<notin> set a" "CHR ''.'' \<notin> set b" "CHR ''.'' \<notin> set s"
  shows "snd (AccessToken_verify e (a @ ''.'' @ b @ ''.'' @ s) opts) =
     (case parse_base64 e a of
        None \<Rightarrow> Rejected invalid_access_token
      | Some h \<Rightarrow>
          (case parse_base64 e b of
             None \<Rightarrow> Rejected invalid_access_token
           | Some p \<Rightarrow> snd (validate e opts p)))"
proof -
  have dot: "CHR ''.'' \<in> set (a @ ''.'' @ b @ ''.'' @ s)" by simp
  show ?thesis
    unfolding AccessToken_verify_def parallel_structured[OF dot] decode_signature[OF assms]
    by (simp add: candidate_claims_def split_beta split: option.splits)
qed

text \<open>
  Neither the signature segment nor the key has any influence on the outcome.
\<close>

lemma signature_and_key_ignored:
  assumes "CHR ''.'' \<notin> set a" "CHR ''.'' \<notin> set b" "CHR ''.'' \<notin> set s" "CHR ''.'' \<notin> set s'"
  shows "snd (AccessToken_verify e (a @ ''.'' @ b @ ''.'' @ s') (opts\<lparr>key := k\<rparr>)) =
         snd (AccessToken_verify e (a @ ''.'' @ b @ ''.'' @ s) opts)"
  unfolding verify_structured[OF assms(1,2,3)] verify_structured[OF assms(1,2,4)] validate_key
  by simp

section \<open>The client functions\<close>

lemma executor_events: "fst (executor t r) = fst r"
  by (cases "(t, r)" rule: executor.cases) auto

lemma executor_resolved: "snd r = Resolved x \<Longrightarrow> snd (executor t r) = Resolved x"
  by (cases "(t, r)" rule: executor.cases) auto

lemma executor_rejected:
  "snd (executor t r) = Rejected err \<Longrightarrow> snd r = Rejected err \<or> snd r = Thrown err"
  by (cases "(t, r)" rule: executor.cases) (auto split: if_splits)

lemma validate_thrown: "snd (validate e opts claims) = Thrown err \<Longrightarrow> err = TypeError"
  by (auto simp: validate_def expired_def insufficient_scope_def
      split: if_splits sum.splits bool.splits jsval.splits coerced.splits option.splits)

lemma default_options_clients:
  assumes "default_options c options0 = Inr opts"
  shows "clients opts = (case options0 of None \<Rightarrow> None | Some given \<Rightarrow> clients given)"
  using assms
  by (auto simp: default_options_def no_options_def Let_def
      split: option.splits if_splits sum.splits)

lemma default_options_none:
  "\<not> nullish (jwks c) \<Longrightarrow>
   default_options c None =
     Inr \<lparr>issuer = this_issuer c, client_id = this_client_id c,
          client_secret = this_client_secret c, scope = Some (this_scope c),
          key = get (jwks c) ''sig'', clients = None\<rparr>"
  by (simp add: default_options_def no_options_def Let_def str_or_def truthy_str_def
      property_def)

lemma map_of_assign_optional:
  "map_of (fold (assign_optional opts) ps params) k =
     (if k \<in> set ps \<and> truthy (get opts k) then Some (get opts k) else map_of params k)"
  by (induction ps arbitrary: params) (auto simp: assign_optional_def update_conv')

section \<open>The concrete inputs, evaluated\<close>

lemma example_segments:
  "CHR ''.'' \<notin> set example_header" "CHR ''.'' \<notin> set example_payload"
  "CHR ''.'' \<notin> set other_audience_payload" "CHR ''.'' \<notin> set foreign_expired_payload"
  by (simp_all add: example_header_def example_payload_def other_audience_payload_def
      foreign_expired_payload_def)

lemma example_parse:
  "parse_base64 example_env example_header = Some (JObj [(''alg'', JStr ''RS256'')])"
  "parse_base64 example_env example_payload = Some example_claims"
  "parse_base64 example_env other_audience_payload = Some other_audience_claims"
  "parse_base64 example_env foreign_expired_payload = Some foreign_expired_claims"
  by (simp_all add: example_env_def example_header_def example_payload_def
      other_audience_payload_def foreign_expired_payload_def)

lemma example_decode:
  "decode example_env example_token k =
     Inr \<lparr>header = JObj [(''alg'', JStr ''RS256'')], payload = example_claims,
          signature = ''c2lnbmF0dXJl''\<rparr>"
  "decode example_env forged_token k =
     Inr \<lparr>header = JObj [(''alg'', JStr ''RS256'')], payload = example_claims,
          signature = ''Zm9yZ2Vk''\<rparr>"
  "decode example_env other_audience_token k =
     Inr \<lparr>header = JObj [(''alg'', JStr ''RS256'')], payload = other_audience_claims,
          signature = ''c2lnbmF0dXJl''\<rparr>"
  "decode example_env foreign_expired_token k =
     Inr \<lparr>header = JObj [(''alg'', JStr ''RS256'')], payload = foreign_expired_claims,
          signature = ''c2lnbmF0dXJl''\<rparr>"
  unfolding example_token_def forged_token_def other_audience_token_def
    foreign_expired_token_def
  using decode_three[OF example_segments(1) example_segments(2) _ example_parse(1) example_parse(2)]
    decode_three[OF example_segments(1) example_segments(3) _ example_parse(1) example_parse(3)]
    decode_three[OF example_segments(1) example_segments(4) _ example_parse(1) example_parse(4)]
  by simp_all

lemma example_dots:
  "CHR ''.'' \<in> set example_token" "CHR ''.'' \<in> set forged_token"
  "CHR ''.'' \<in> set other_audience_token" "CHR ''.'' \<in> set foreign_expired_token"
  by (simp_all add: example_token_def forged_token_def other_audience_token_def
      foreign_expired_token_def)

lemma example_parallel:
  "parallel example_env example_token opts =
     ([Decode example_token],
      Inr \<lparr>jwt = Some \<lparr>header = JObj [(''alg'', JStr ''RS256'')], payload = example_claims,
                       signature = ''c2lnbmF0dXJl''\<rparr>, random = JUndefined\<rparr>)"
  "parallel example_env forged_token opts =
     ([Decode forged_token],
      Inr \<lparr>jwt = Some \<lparr>header = JObj [(''alg'', JStr ''RS256'')], payload = example_claims,
                       signature = ''Zm9yZ2Vk''\<rparr>, random = JUndefined\<rparr>)"
  "parallel example_env other_audience_token opts =
     ([Decode other_audience_token],
      Inr \<lparr>jwt = Some \<lparr>header = JObj [(''alg'', JStr ''RS256'')], payload = other_audience_claims,
                       signature = ''c2lnbmF0dXJl''\<rparr>, random = JUndefined\<rparr>)"
  "parallel example_env foreign_expired_token opts =
     ([Decode foreign_expired_token],
      Inr \<lparr>jwt = Some \<lparr>header = JObj [(''alg'', JStr ''RS256'')], payload = foreign_expired_claims,
                       signature = ''c2lnbmF0dXJl''\<rparr>, random = JUndefined\<rparr>)"
  by (simp_all add: parallel_structured example_dots example_decode)

lemma example_parallel_opaque:
  "parallel example_env ''opaque123'' example_options =
     ([Introspect \<lparr>url = ''https://idp.example/token/verify'', user = Some ''c1'',
                   pass = Some ''s1'', body = JObj [(''access_token'', JStr ''opaque123'')]\<rparr>],
      Inr \<lparr>jwt = None, random = example_claims\<rparr>)"
proof -
  have n: "CHR ''.'' \<notin> set ''opaque123''" by simp
  show ?thesis
    by (simp add: parallel_opaque[OF n] example_options_def example_env_def verify_url_def
        example_claims_def)
qed

lemma example_candidates:
  "candidate_claims \<lparr>jwt = Some \<lparr>header = h, payload = p, signature = s\<rparr>, random = JUndefined\<rparr> = Inr p"
  by (simp add: candidate_claims_def)

lemma example_candidates_opaque:
  "candidate_claims \<lparr>jwt = None, random = example_claims\<rparr> = Inr example_claims"
  by (simp add: candidate_claims_def example_claims_def)

lemma example_claims_fields:
  "get example_claims ''iss'' = JStr ''https://idp.example''"
  "get example_claims ''aud'' = JStr ''c1''"
  "get example_claims ''exp'' = JNum 2000"
  "get example_claims ''scope'' = JStr ''openid profile''"
  by (simp_all add: example_claims_def)

lemma other_audience_claims_fields:
  "get other_audience_claims ''iss'' = JStr ''https://idp.example''"
  "get other_audience_claims ''aud'' = JStr ''someone-else''"
  "get other_audience_claims ''exp'' = JNum 2000"
  "get other_audience_claims ''scope'' = JStr ''openid profile''"
  by (simp_all add: other_audience_claims_def)

lemma authorizationParams_example:
  "authorizationParams example_client
      (JObj [(''state'', JStr ''xyz''), (''nonce'', JStr ''n1''), (''foo'', JStr ''ignored'')]) =
     [(''response_type'', JStr ''code''), (''client_id'', JStr ''c1''),
      (''redirect_uri'', JStr ''https://app.example/cb''), (''scope'', JStr ''openid profile''),
      (''state'', JStr ''xyz''), (''nonce'', JStr ''n1'')]"
  by (simp add: authorizationParams_def optionalParameters_def assign_optional_def js_or_def
      js_of_def example_client_def)

lemma token_with_code_requests:
  "fst (token example_env verify_tokens example_client (JObj [(''code'', JStr ''abc'')])) =
     [Exchange \<lparr>token_endpoint = JStr ''https://idp.example/token'',
                grant_type = JStr ''authorization_code'', code = JStr ''abc'',
                redirect_uri = JStr ''https://app.example/cb'', auth_user = Some ''c1'',
                auth_pass = Some ''s1''\<rparr>]"
  by (simp add: token_def authorization_code_def property_def js_or_def js_of_def
      example_client_def example_env_def)

section \<open>Claims with a numeric expiry and a string scope\<close>

text \<open>
  When the resolved claims carry a number as \<^verbatim>\<open>exp\<close> and a string as \<^verbatim>\<open>scope\<close>, the
  final callback does what the specification's list of checks says: issuer, audience
  (when client ids are configured), expiry, scope (when a scope is required), in this
  order, the first failing check giving the rejection and the checks after it not being
  evaluated.
\<close>

lemma claim_checks_in_fixed_order:
  assumes "parallel e tok opts = (ev, Inr result)" and "candidate_claims result = Inr claims"
    and "get claims ''exp'' = JNum x" and "get claims ''scope'' = JStr cs"
  shows "AccessToken_verify e tok opts =
     (case first_failure
        ([(Issuer, get claims ''iss'' \<noteq> js_of (issuer opts),
           unauthorized ''invalid_token'' ''Mismatching issuer'' 403)] @
         (case clients opts of
            None \<Rightarrow> []
          | Some ids \<Rightarrow>
              [(Audience, get claims ''aud'' \<notin> JStr ` set ids,
                unauthorized ''invalid_token'' ''Mismatching audience'' 403)]) @
         [(Expiry, x < nowSeconds e,
           unauthorized ''invalid_token'' ''Expired access token'' 403)] @
         (case scope opts of
            None \<Rightarrow> []
          | Some s \<Rightarrow>
              if s = [] then []
              else [(Scope, \<not> sublist s cs,
                     unauthorized ''insufficient_scope'' ''Insufficient scope'' 403)]))
        claims
      of (checks, out) \<Rightarrow> (ev @ checks, out))"
  unfolding verify_resolved[OF assms(1) assms(2)] validate_first_failure[OF assms(3) assms(4)]
  by (simp add: split_beta)

lemma claim_checks_in_fixed_order_example:
  "AccessToken_verify example_env example_token example_options =
     ([Decode example_token, Check Issuer, Check Audience, Check Expiry, Check Scope],
      Resolved example_claims) \<and>
   AccessToken_verify example_env other_audience_token example_options =
     ([Decode other_audience_token, Check Issuer, Check Audience],
      Rejected (UnauthorizedError (JObj [(''error'', JStr ''invalid_token''),
        (''error_description'', JStr ''Mismatching audience''), (''statusCode'', JNum 403)]))) \<and>
   AccessToken_verify example_env ''opaque123'' example_options =
     ([Introspect \<lparr>url = ''https://idp.example/token/verify'', user = Some ''c1'',
                   pass = Some ''s1'', body = JObj [(''access_token'', JStr ''opaque123'')]\<rparr>,
       Check Issuer, Check Audience, Check Expiry, Check Scope],
      Resolved example_claims)"
  using claim_checks_in_fixed_order[OF example_parallel(1) example_candidates
      example_claims_fields(3,4), of example_options]
    claim_checks_in_fixed_order[OF example_parallel(3) example_candidates
      other_audience_claims_fields(3,4), of example_options]
    claim_checks_in_fixed_order[OF example_parallel_opaque example_candidates_opaque
      example_claims_fields(3,4)]
  by (simp add: example_options_def example_claims_fields other_audience_claims_fields
      example_env_def unauthorized_def js_of_def sublist_eval)

text \<open>
  For claims with a string \<^verbatim>\<open>scope\<close>: the rejection "Insufficient scope" happens only
  when a scope is required and is not a substring of \<^verbatim>\<open>claims.scope\<close>; when the other
  three checks pass it happens exactly then; when no scope is required the scope check
  is not evaluated.
\<close>

lemma insufficient_scope_rejected:
  assumes "parallel e tok opts = (ev, Inr result)" and "candidate_claims result = Inr claims"
  shows "(\<forall>cs. get claims ''scope'' = JStr cs \<longrightarrow>
            snd (AccessToken_verify e tok opts) =
              Rejected (unauthorized ''insufficient_scope'' ''Insufficient scope'' 403) \<longrightarrow>
            (\<exists>s. scope opts = Some s \<and> s \<noteq> [] \<and> \<not> sublist s cs)) \<and>
         (\<forall>cs s x. get claims ''scope'' = JStr cs \<longrightarrow> scope opts = Some s \<longrightarrow> s \<noteq> [] \<longrightarrow>
            get claims ''iss'' = js_of (issuer opts) \<longrightarrow>
            (\<forall>ids. clients opts = Some ids \<longrightarrow> get claims ''aud'' \<in> JStr ` set ids) \<longrightarrow>
            get claims ''exp'' = JNum x \<longrightarrow> nowSeconds e \<le> x \<longrightarrow>
            snd (AccessToken_verify e tok opts) =
              (if sublist s cs then Resolved claims
               else Rejected (unauthorized ''insufficient_scope'' ''Insufficient scope'' 403))) \<and>
         (\<not> truthy_str (scope opts) \<longrightarrow>
            Check Scope \<notin> set (fst (AccessToken_verify e tok opts)) \<and>
            snd (AccessToken_verify e tok opts) \<noteq>
              Rejected (unauthorized ''insufficient_scope'' ''Insufficient scope'' 403) \<and>
            (\<forall>x. get claims ''iss'' = js_of (issuer opts) \<longrightarrow>
               (\<forall>ids. clients opts = Some ids \<longrightarrow> get claims ''aud'' \<in> JStr ` set ids) \<longrightarrow>
               get claims ''exp'' = JNum x \<longrightarrow> nowSeconds e \<le> x \<longrightarrow>
               snd (AccessToken_verify e tok opts) = Resolved claims))"
proof (intro conjI allI impI)
  fix cs
  assume sc: "get claims ''scope'' = JStr cs"
    and rej: "snd (AccessToken_verify e tok opts) =
              Rejected (unauthorized ''insufficient_scope'' ''Insufficient scope'' 403)"
  from rej have "insufficient_scope claims (scope opts) = Inr True"
    unfolding verify_resolved[OF assms] by (simp add: validate_insufficient_only_if)
  then show "\<exists>s. scope opts = Some s \<and> s \<noteq> [] \<and> \<not> sublist s cs"
    by (simp add: insufficient_scope_string[OF sc])
next
  fix cs s x
  assume sc: "get claims ''scope'' = JStr cs" and s: "scope opts = Some s" "s \<noteq> []"
    and iss: "get claims ''iss'' = js_of (issuer opts)"
    and aud: "\<forall>ids. clients opts = Some ids \<longrightarrow> get claims ''aud'' \<in> JStr ` set ids"
    and ex: "get claims ''exp'' = JNum x" "nowSeconds e \<le> x"
  show "snd (AccessToken_verify e tok opts) =
              (if sublist s cs then Resolved claims
               else Rejected (unauthorized ''insufficient_scope'' ''Insufficient scope'' 403))"
    unfolding verify_resolved[OF assms] validate_number[OF ex(1)]
      insufficient_scope_string[OF sc]
    using s iss aud ex(2) by auto
next
  assume ns: "\<not> truthy_str (scope opts)"
  show "Check Scope \<notin> set (fst (AccessToken_verify e tok opts))"
    unfolding verify_resolved[OF assms]
    using validate_no_scope_event[OF ns, of e claims] assms(1)
    by (auto simp: parallel_def jwt_task_def random_task_def Let_def
        split: if_splits sum.splits)
  show "snd (AccessToken_verify e tok opts) \<noteq>
              Rejected (unauthorized ''insufficient_scope'' ''Insufficient scope'' 403)"
    unfolding verify_resolved[OF assms]
    using validate_insufficient_only_if[of e opts claims] scope_not_required[OF ns, of claims]
    by auto
next
  fix x
  assume ns: "\<not> truthy_str (scope opts)"
    and iss: "get claims ''iss'' = js_of (issuer opts)"
    and aud: "\<forall>ids. clients opts = Some ids \<longrightarrow> get claims ''aud'' \<in> JStr ` set ids"
    and ex: "get claims ''exp'' = JNum x" "nowSeconds e \<le> x"
  show "snd (AccessToken_verify e tok opts) = Resolved claims"
    unfolding verify_resolved[OF assms] validate_number[OF ex(1)] scope_not_required[OF ns]
    using iss aud ex(2) by auto
qed

lemma insufficient_scope_rejected_example:
  "snd (AccessToken_verify example_env example_token (example_options\<lparr>scope := Some ''admin''\<rparr>)) =
     Rejected (UnauthorizedError (JObj [(''error'', JStr ''insufficient_scope''),
        (''error_description'', JStr ''Insufficient scope''), (''statusCode'', JNum 403)])) \<and>
   snd (AccessToken_verify example_env example_token example_options) = Resolved example_claims \<and>
   Check Scope \<notin> set (fst (AccessToken_verify example_env example_token
                              (example_options\<lparr>scope := None\<rparr>)))"
proof -
  have a: "snd (AccessToken_verify example_env example_token (example_options\<lparr>scope := Some ''admin''\<rparr>)) =
     Rejected (unauthorized ''insufficient_scope'' ''Insufficient scope'' 403)"
    using insufficient_scope_rejected[OF example_parallel(1) example_candidates,
        of "example_options\<lparr>scope := Some ''admin''\<rparr>"]
    by (simp add: example_claims_fields example_options_def example_env_def js_of_def
        sublist_eval)
  have b: "snd (AccessToken_verify example_env example_token example_options) = Resolved example_claims"
    using insufficient_scope_rejected[OF example_parallel(1) example_candidates, of example_options]
    by (simp add: example_claims_fields example_options_def example_env_def js_of_def
        sublist_eval)
  have c: "Check Scope \<notin> set (fst (AccessToken_verify example_env example_token
                              (example_options\<lparr>scope := None\<rparr>)))"
    using insufficient_scope_rejected[OF example_parallel(1) example_candidates,
        of "example_options\<lparr>scope := None\<rparr>"]
    by (simp add: example_options_def truthy_str_def)
  show ?thesis using a b c by (simp add: unauthorized_def)
qed

text \<open>The malformed payloads, evaluated.\<close>

lemma hostile_parse:
  "parse_base64 hostile_env example_header = Some (JObj [(''alg'', JStr ''RS256'')])"
  "parse_base64 hostile_env no_scope_payload = Some no_scope_claims"
  "parse_base64 hostile_env null_payload = Some JNull"
  "parse_base64 hostile_env no_exp_payload = Some no_exp_claims"
  by (simp_all add: hostile_env_def example_env_def example_header_def no_scope_payload_def
      null_payload_def no_exp_payload_def)

lemma hostile_segments:
  "CHR ''.'' \<notin> set no_scope_payload" "CHR ''.'' \<notin> set null_payload"
  "CHR ''.'' \<notin> set no_exp_payload" "CHR ''.'' \<notin> set ''c2lnbmF0dXJl''"
  by (simp_all add: no_scope_payload_def null_payload_def no_exp_payload_def)

lemma hostile_decode:
  "decode hostile_env no_scope_token k =
     Inr \<lparr>header = JObj [(''alg'', JStr ''RS256'')], payload = no_scope_claims,
          signature = ''c2lnbmF0dXJl''\<rparr>"
  "decode hostile_env null_payload_token k =
     Inr \<lparr>header = JObj [(''alg'', JStr ''RS256'')], payload = JNull,
          signature = ''c2lnbmF0dXJl''\<rparr>"
  "decode hostile_env no_exp_token k =
     Inr \<lparr>header = JObj [(''alg'', JStr ''RS256'')], payload = no_exp_claims,
          signature = ''c2lnbmF0dXJl''\<rparr>"
  unfolding no_scope_token_def null_payload_token_def no_exp_token_def
  using decode_three[OF example_segments(1) hostile_segments(1) hostile_segments(4)
      hostile_parse(1) hostile_parse(2)]
    decode_three[OF example_segments(1) hostile_segments(2) hostile_segments(4)
      hostile_parse(1) hostile_parse(3)]
    decode_three[OF example_segments(1) hostile_segments(3) hostile_segments(4)
      hostile_parse(1) hostile_parse(4)]
  by simp_all

lemma hostile_dots:
  "CHR ''.'' \<in> set no_scope_token" "CHR ''.'' \<in> set null_payload_token"
  "CHR ''.'' \<in> set no_exp_token"
  by (simp_all add: no_scope_token_def null_payload_token_def no_exp_token_def)

lemma hostile_parallel:
  "parallel hostile_env no_scope_token opts =
     ([Decode no_scope_token],
      Inr \<lparr>jwt = Some \<lparr>header = JObj [(''alg'', JStr ''RS256'')], payload = no_scope_claims,
                       signature = ''c2lnbmF0dXJl''\<rparr>, random = JUndefined\<rparr>)"
  "parallel hostile_env null_payload_token opts =
     ([Decode null_payload_token],
      Inr \<lparr>jwt = Some \<lparr>header = JObj [(''alg'', JStr ''RS256'')], payload = JNull,
                       signature = ''c2lnbmF0dXJl''\<rparr>, random = JUndefined\<rparr>)"
  "parallel hostile_env no_exp_token opts =
     ([Decode no_exp_token],
      Inr \<lparr>jwt = Some \<lparr>header = JObj [(''alg'', JStr ''RS256'')], payload = no_exp_claims,
                       signature = ''c2lnbmF0dXJl''\<rparr>, random = JUndefined\<rparr>)"
  by (simp_all add: parallel_structured hostile_dots hostile_decode)

lemma hostile_parallel_opaque:
  "parallel hostile_env ''opaque456'' example_options =
     ([Introspect \<lparr>url = ''https://idp.example/token/verify'', user = Some ''c1'',
                   pass = Some ''s1'', body = JObj [(''access_token'', JStr ''opaque456'')]\<rparr>],
      Inr \<lparr>jwt = None, random = no_scope_claims\<rparr>)"
proof -
  have n: "CHR ''.'' \<notin> set ''opaque456''" by simp
  show ?thesis
    by (simp add: parallel_opaque[OF n] example_options_def hostile_env_def verify_url_def
        no_scope_claims_def)
qed

lemma validate_without_scope:
  "validate hostile_env example_options no_scope_claims =
     ([Check Issuer, Check Audience, Check Expiry, Check Scope], Thrown TypeError)"
  by (simp add: validate_def mismatching_issuer_def mismatching_audience_def expired_def
      insufficient_scope_def audience_events_def scope_events_def truthy_str_def
      array_indexOf_def no_scope_claims_def example_options_def hostile_env_def
      example_env_def js_of_def)

section \<open>Claims\<close>

subsection \<open>C1: signature verification\<close>

text \<open>
  C1. The claim: the payload of a structured token is trusted as claims only after its
  signature has been validated against the configured key. The code does not do this:
  \<^verbatim>\<open>AccessToken.decode\<close> receives the key and never reads it, and the signature
  segment is only stored. Evaluated at a token whose third segment is the base64 text of
  \<^verbatim>\<open>forged\<close>, with an RSA key configured, the verification passes every check and
  resolves with the payload. (\<open>signature_and_key_ignored\<close> above is the general fact.)
\<close>

theorem forged_signature_accepted:
  "AccessToken_verify example_env forged_token example_options =
     ([Decode forged_token, Check Issuer, Check Audience, Check Expiry, Check Scope],
      Resolved example_claims)"
  unfolding verify_resolved[OF example_parallel(2) example_candidates]
  by (simp add: validate_def mismatching_issuer_def mismatching_audience_def expired_def
      insufficient_scope_def audience_events_def scope_events_def truthy_str_def
      array_indexOf_def indexOf_def example_claims_def example_options_def example_env_def
      js_of_def)

subsection \<open>C2: the order of the claim checks\<close>

text \<open>
  C2. The claim: for every token whose candidate claims are resolved, the checks run in
  the order issuer, audience, expiry, scope, the first failing check gives its rejection,
  and the call resolves with the claims when none fails. The code reads \<^verbatim>\<open>claims.iss\<close>,
  \<^verbatim>\<open>claims.exp\<close> and \<^verbatim>\<open>claims.scope\<close> without looking whether they are there. Evaluated
  at a token whose payload has no \<^verbatim>\<open>scope\<close>, with the scope \<^verbatim>\<open>openid\<close> required: the
  issuer, audience and expiry checks pass, and the scope search throws a TypeError, so
  the call neither rejects nor resolves. At a token whose payload is \<^verbatim>\<open>null\<close> the
  issuer comparison throws. At a token whose payload has no \<^verbatim>\<open>exp\<close> the expiry
  comparison is false and the call resolves with claims that never expire.
\<close>

theorem malformed_claims_escape_the_checks:
  "AccessToken_verify hostile_env no_scope_token example_options =
     ([Decode no_scope_token, Check Issuer, Check Audience, Check Expiry, Check Scope],
      Thrown TypeError) \<and>
   AccessToken_verify hostile_env null_payload_token example_options =
     ([Decode null_payload_token, Check Issuer], Thrown TypeError) \<and>
   AccessToken_verify hostile_env no_exp_token example_options =
     ([Decode no_exp_token, Check Issuer, Check Audience, Check Expiry, Check Scope],
      Resolved no_exp_claims)"
proof (intro conjI)
  show "AccessToken_verify hostile_env no_scope_token example_options =
     ([Decode no_scope_token, Check Issuer, Check Audience, Check Expiry, Check Scope],
      Thrown TypeError)"
    unfolding verify_resolved[OF hostile_parallel(1) example_candidates]
    by (simp add: validate_without_scope)
  show "AccessToken_verify hostile_env null_payload_token example_options =
     ([Decode null_payload_token, Check Issuer], Thrown TypeError)"
    unfolding verify_resolved[OF hostile_parallel(2) example_candidates]
    by (simp add: validate_def)
  show "AccessToken_verify hostile_env no_exp_token example_options =
     ([Decode no_exp_token, Check Issuer, Check Audience, Check Expiry, Check Scope],
      Resolved no_exp_claims)"
    unfolding verify_resolved[OF hostile_parallel(3) example_candidates]
    by (simp add: validate_def mismatching_issuer_def mismatching_audience_def expired_def
        insufficient_scope_def audience_events_def scope_events_def truthy_str_def
        array_indexOf_def indexOf_def no_exp_claims_def example_options_def hostile_env_def
        example_env_def js_of_def)
qed

subsection \<open>C3: the two forms of a token\<close>

text \<open>
  C3. A token is of exactly one form. With a dot in it, the introspection task does
  nothing: the events of the verification hold the decoding and no request, and claims,
  when there are any, are the payload that \<^verbatim>\<open>AccessToken.decode\<close> returned. Without a
  dot, the decoding task does nothing: the events hold the introspection request and no
  decoding, and claims, when there are any, are the body of the provider's answer.
\<close>

theorem token_classified_once:
  "(CHR ''.'' \<in> set tok \<longrightarrow>
      jwt_task e tok opts \<noteq> ([], Inr None) \<and>
      random_task e tok opts = ([], Inr JUndefined) \<and>
      Decode tok \<in> set (fst (AccessToken_verify e tok opts)) \<and>
      (\<forall>req. Introspect req \<notin> set (fst (AccessToken_verify e tok opts))) \<and>
      (\<forall>ev result claims.
         parallel e tok opts = (ev, Inr result) \<longrightarrow> candidate_claims result = Inr claims \<longrightarrow>
         (\<exists>at. decode e tok (key opts) = Inr at \<and> claims = payload at))) \<and>
   (CHR ''.'' \<notin> set tok \<longrightarrow>
      jwt_task e tok opts = ([], Inr None) \<and>
      random_task e tok opts \<noteq> ([], Inr JUndefined) \<and>
      (\<forall>t. Decode t \<notin> set (fst (AccessToken_verify e tok opts))) \<and>
      Introspect \<lparr>url = verify_url (issuer opts), user = client_id opts,
                  pass = client_secret opts, body = JObj [(''access_token'', JStr tok)]\<rparr>
        \<in> set (fst (AccessToken_verify e tok opts)) \<and>
      (\<forall>ev result claims.
         parallel e tok opts = (ev, Inr result) \<longrightarrow> candidate_claims result = Inr claims \<longrightarrow>
         post e \<lparr>url = verify_url (issuer opts), user = client_id opts,
                 pass = client_secret opts, body = JObj [(''access_token'', JStr tok)]\<rparr>
           = Response claims))"
proof (intro conjI impI)
  assume dot: "CHR ''.'' \<in> set tok"
  show "jwt_task e tok opts \<noteq> ([], Inr None)"
    using dot by (simp add: jwt_task_def indexOf_dot split: sum.splits)
  show "random_task e tok opts = ([], Inr JUndefined)"
    using dot by (simp add: random_task_def indexOf_dot)
  have ev: "fst (parallel e tok opts) = [Decode tok]"
    by (simp add: parallel_structured[OF dot])
  show "Decode tok \<in> set (fst (AccessToken_verify e tok opts))"
    by (simp add: verify_events ev)
  show "\<forall>req. Introspect req \<notin> set (fst (AccessToken_verify e tok opts))"
    using verify_events_subset[of e tok opts] ev by auto
  show "\<forall>ev result claims.
         parallel e tok opts = (ev, Inr result) \<longrightarrow> candidate_claims result = Inr claims \<longrightarrow>
         (\<exists>at. decode e tok (key opts) = Inr at \<and> claims = payload at)"
    by (auto simp: parallel_structured[OF dot] candidate_claims_def split: sum.splits)
next
  assume nodot: "CHR ''.'' \<notin> set tok"
  show "jwt_task e tok opts = ([], Inr None)"
    using nodot by (simp add: jwt_task_def indexOf_dot)
  show "random_task e tok opts \<noteq> ([], Inr JUndefined)"
    using nodot by (simp add: random_task_def indexOf_dot Let_def)
  have ev: "fst (parallel e tok opts) =
      [Introspect \<lparr>url = verify_url (issuer opts), user = client_id opts,
                 pass = client_secret opts, body = JObj [(''access_token'', JStr tok)]\<rparr>]"
    by (simp add: parallel_opaque[OF nodot] Let_def)
  show "\<forall>t. Decode t \<notin> set (fst (AccessToken_verify e tok opts))"
    using verify_events_subset[of e tok opts] ev by auto
  show "Introspect \<lparr>url = verify_url (issuer opts), user = client_id opts,
                  pass = client_secret opts, body = JObj [(''access_token'', JStr tok)]\<rparr>
        \<in> set (fst (AccessToken_verify e tok opts))"
    by (simp add: verify_events ev)
  show "\<forall>ev result claims.
         parallel e tok opts = (ev, Inr result) \<longrightarrow> candidate_claims result = Inr claims \<longrightarrow>
         post e \<lparr>url = verify_url (issuer opts), user = client_id opts,
                 pass = client_secret opts, body = JObj [(''access_token'', JStr tok)]\<rparr>
           = Response claims"
    by (auto simp: parallel_opaque[OF nodot] candidate_claims_def Let_def
        split: response.splits if_splits)
qed

theorem token_classified_once_witness:
  "CHR ''.'' \<in> set example_token \<and>
   random_task example_env example_token example_options = ([], Inr JUndefined) \<and>
   (\<forall>req. Introspect req \<notin> set (fst (AccessToken_verify example_env example_token example_options))) \<and>
   CHR ''.'' \<notin> set ''opaque123'' \<and>
   jwt_task example_env ''opaque123'' example_options = ([], Inr None) \<and>
   (\<forall>t. Decode t \<notin> set (fst (AccessToken_verify example_env ''opaque123'' example_options)))"
proof -
  have n: "CHR ''.'' \<notin> set ''opaque123''" by simp
  show ?thesis
    using token_classified_once[of example_token example_env example_options]
      token_classified_once[of "''opaque123''" example_env example_options] example_dots(1) n
    by blast
qed

subsection \<open>C4: the scope check\<close>

text \<open>
  C4. The claim: when a scope is required, the call is rejected with
  \<^verbatim>\<open>insufficient_scope\<close>, "Insufficient scope", 403 exactly when \<^verbatim>\<open>claims.scope\<close> does
  not contain it, also when the issuer, audience and expiry checks pass. Claims without
  a \<^verbatim>\<open>scope\<close> do not contain the required scope, and the code does not reject them:
  \<^verbatim>\<open>claims.scope.indexOf\<close> throws a TypeError on the missing field. Evaluated with the
  scope \<^verbatim>\<open>openid\<close> required, on both paths: at a structured token whose payload has no
  \<^verbatim>\<open>scope\<close>, and at an opaque token that the provider resolves to claims without a
  \<^verbatim>\<open>scope\<close>. The three earlier checks pass and the scope search throws; through the
  client's \<^verbatim>\<open>verify\<close> the structured token rejects the promise with the TypeError, not
  with the 403 error.
\<close>

theorem missing_scope_throws:
  "get no_scope_claims ''scope'' = JUndefined \<and> scope example_options = Some ''openid'' \<and>
   AccessToken_verify hostile_env no_scope_token example_options =
     ([Decode no_scope_token, Check Issuer, Check Audience, Check Expiry, Check Scope],
      Thrown TypeError) \<and>
   AccessToken_verify hostile_env ''opaque456'' example_options =
     ([Introspect \<lparr>url = ''https://idp.example/token/verify'', user = Some ''c1'',
                   pass = Some ''s1'', body = JObj [(''access_token'', JStr ''opaque456'')]\<rparr>,
       Check Issuer, Check Audience, Check Expiry, Check Scope],
      Thrown TypeError) \<and>
   verify hostile_env example_client no_scope_token (Some example_options) =
     ([Decode no_scope_token, Check Issuer, Check Audience, Check Expiry, Check Scope],
      Rejected TypeError)"
proof -
  have c: "candidate_claims \<lparr>jwt = None, random = no_scope_claims\<rparr> = Inr no_scope_claims"
    by (simp add: candidate_claims_def no_scope_claims_def)
  have a: "AccessToken_verify hostile_env no_scope_token example_options =
     ([Decode no_scope_token, Check Issuer, Check Audience, Check Expiry, Check Scope],
      Thrown TypeError)"
    unfolding verify_resolved[OF hostile_parallel(1) example_candidates]
    by (simp add: validate_without_scope)
  have b: "AccessToken_verify hostile_env ''opaque456'' example_options =
     ([Introspect \<lparr>url = ''https://idp.example/token/verify'', user = Some ''c1'',
                   pass = Some ''s1'', body = JObj [(''access_token'', JStr ''opaque456'')]\<rparr>,
       Check Issuer, Check Audience, Check Expiry, Check Scope],
      Thrown TypeError)"
    unfolding verify_resolved[OF hostile_parallel_opaque c]
    by (simp add: validate_without_scope)
  have d: "default_options example_client (Some example_options) = Inr example_options"
    by (simp add: default_options_def example_options_def example_client_def example_jwk_def
        str_or_def truthy_str_def Let_def)
  have v: "verify hostile_env example_client no_scope_token (Some example_options) =
     ([Decode no_scope_token, Check Issuer, Check Audience, Check Expiry, Check Scope],
      Rejected TypeError)"
    using hostile_dots(1) by (simp add: verify_def d a indexOf_dot)
  show ?thesis
    using a b v by (simp add: no_scope_claims_def example_options_def)
qed

subsection \<open>C5: the expiry check\<close>

text \<open>
  C5, as amended. For resolved claims with a numeric \<^verbatim>\<open>exp\<close>: when \<^verbatim>\<open>exp\<close> is less
  than the current time the call is rejected with \<^verbatim>\<open>invalid_token\<close> and status 403
  whatever the other claims are, and the description is "Expired access token" when the
  issuer and audience checks pass; when \<^verbatim>\<open>exp\<close> is the current time or later, the call
  is never rejected as expired.
\<close>

theorem expired_token_rejected:
  assumes "parallel e tok opts = (ev, Inr result)" and "candidate_claims result = Inr claims"
    and "get claims ''exp'' = JNum x"
  shows "(x < nowSeconds e \<longrightarrow>
            (\<exists>d. snd (AccessToken_verify e tok opts) =
                    Rejected (unauthorized ''invalid_token'' d 403) \<and>
                 (get claims ''iss'' = js_of (issuer opts) \<and>
                  (\<forall>ids. clients opts = Some ids \<longrightarrow> get claims ''aud'' \<in> JStr ` set ids) \<longrightarrow>
                  d = ''Expired access token''))) \<and>
         (nowSeconds e \<le> x \<longrightarrow>
            snd (AccessToken_verify e tok opts) \<noteq>
              Rejected (unauthorized ''invalid_token'' ''Expired access token'' 403))"
proof (intro conjI impI)
  assume lt: "x < nowSeconds e"
  show "\<exists>d. snd (AccessToken_verify e tok opts) =
                    Rejected (unauthorized ''invalid_token'' d 403) \<and>
                 (get claims ''iss'' = js_of (issuer opts) \<and>
                  (\<forall>ids. clients opts = Some ids \<longrightarrow> get claims ''aud'' \<in> JStr ` set ids) \<longrightarrow>
                  d = ''Expired access token'')"
    unfolding verify_resolved[OF assms(1,2)] validate_number[OF assms(3)]
    using lt by auto
next
  assume ge: "nowSeconds e \<le> x"
  show "snd (AccessToken_verify e tok opts) \<noteq>
              Rejected (unauthorized ''invalid_token'' ''Expired access token'' 403)"
    unfolding verify_resolved[OF assms(1,2)] validate_number[OF assms(3)]
    using ge by (auto simp: unauthorized_inject split: sum.splits bool.splits)
qed

theorem expired_token_rejected_witness:
  "snd (AccessToken_verify example_env foreign_expired_token
          (example_options\<lparr>issuer := Some ''https://evil.example''\<rparr>)) =
     Rejected (UnauthorizedError (JObj [(''error'', JStr ''invalid_token''),
        (''error_description'', JStr ''Expired access token''), (''statusCode'', JNum 403)])) \<and>
   snd (AccessToken_verify example_env example_token example_options) \<noteq>
     Rejected (UnauthorizedError (JObj [(''error'', JStr ''invalid_token''),
        (''error_description'', JStr ''Expired access token''), (''statusCode'', JNum 403)]))"
proof -
  have 1: "get foreign_expired_claims ''exp'' = JNum 500"
    by (simp add: foreign_expired_claims_def)
  have 2: "get example_claims ''exp'' = JNum 2000"
    by (simp add: example_claims_def)
  show ?thesis
    using expired_token_rejected[OF example_parallel(4) example_candidates 1,
        of "example_options\<lparr>issuer := Some ''https://evil.example''\<rparr>"]
      expired_token_rejected[OF example_parallel(1) example_candidates 2, of example_options]
    by (auto simp: example_env_def example_options_def foreign_expired_claims_def js_of_def
        unauthorized_def)
qed

text \<open>
  C5, as stated, promises the description "Expired access token" whatever the other
  claims are. An expired token of a foreign issuer is rejected at the issuer check, with
  the description "Mismatching issuer".
\<close>

theorem expired_token_other_description:
  "get foreign_expired_claims ''exp'' = JNum 500 \<and> 500 < nowSeconds example_env \<and>
   AccessToken_verify example_env foreign_expired_token example_options =
     ([Decode foreign_expired_token, Check Issuer],
      Rejected (UnauthorizedError (JObj [(''error'', JStr ''invalid_token''),
        (''error_description'', JStr ''Mismatching issuer''), (''statusCode'', JNum 403)]))) \<and>
   snd (AccessToken_verify example_env foreign_expired_token example_options) \<noteq>
     Rejected (UnauthorizedError (JObj [(''error'', JStr ''invalid_token''),
        (''error_description'', JStr ''Expired access token''), (''statusCode'', JNum 403)]))"
  unfolding verify_resolved[OF example_parallel(4) example_candidates]
  by (simp add: validate_def mismatching_issuer_def foreign_expired_claims_def
      example_options_def example_env_def js_of_def unauthorized_def)

subsection \<open>C6: malformed structured tokens\<close>

text \<open>
  C6. A token with a dot that does not split into exactly three segments, or whose
  header or payload segment cannot be decoded and parsed, is rejected with the
  UnauthorizedError of realm "user", \<^verbatim>\<open>invalid_token\<close>, "Invalid access token", 401; the
  only event is the decoding, so no claim check is reached.
\<close>

theorem malformed_structured_token_rejected:
  assumes "CHR ''.'' \<in> set tok"
    and "length (split CHR ''.'' tok) \<noteq> 3 \<or>
         parse_base64 e (split CHR ''.'' tok ! 0) = None \<or>
         parse_base64 e (split CHR ''.'' tok ! 1) = None"
  shows "AccessToken_verify e tok opts =
     ([Decode tok],
      Rejected (UnauthorizedError (JObj [(''realm'', JStr ''user''),
        (''error'', JStr ''invalid_token''),
        (''error_description'', JStr ''Invalid access token''), (''statusCode'', JNum 401)])))"
proof -
  obtain err where "decode e tok (key opts) = Inl err"
    using decode_malformed[OF assms(2)] by blast
  then have "parallel e tok opts = ([Decode tok], Inl invalid_access_token)"
    by (simp add: parallel_structured[OF assms(1)])
  then show ?thesis
    by (simp add: verify_failed invalid_access_token_def)
qed

theorem malformed_structured_token_rejected_witness:
  "AccessToken_verify example_env ''eyJhbGciOiJSUzI1NiJ9.e30'' example_options =
     ([Decode ''eyJhbGciOiJSUzI1NiJ9.e30''],
      Rejected (UnauthorizedError (JObj [(''realm'', JStr ''user''),
        (''error'', JStr ''invalid_token''),
        (''error_description'', JStr ''Invalid access token''), (''statusCode'', JNum 401)]))) \<and>
   AccessToken_verify example_env ''eyJhbGciOiJSUzI1NiJ9.bm90IGpzb24.c2ln'' example_options =
     ([Decode ''eyJhbGciOiJSUzI1NiJ9.bm90IGpzb24.c2ln''],
      Rejected (UnauthorizedError (JObj [(''realm'', JStr ''user''),
        (''error'', JStr ''invalid_token''),
        (''error_description'', JStr ''Invalid access token''), (''statusCode'', JNum 401)])))"
proof -
  have a: "CHR ''.'' \<in> set ''eyJhbGciOiJSUzI1NiJ9.e30''" by simp
  have b: "length (split CHR ''.'' ''eyJhbGciOiJSUzI1NiJ9.e30'') \<noteq> 3" by simp
  have c: "CHR ''.'' \<in> set ''eyJhbGciOiJSUzI1NiJ9.bm90IGpzb24.c2ln''" by simp
  have d: "parse_base64 example_env (split CHR ''.'' ''eyJhbGciOiJSUzI1NiJ9.bm90IGpzb24.c2ln'' ! 1) = None"
    by (simp add: example_env_def example_header_def example_payload_def
        other_audience_payload_def foreign_expired_payload_def)
  show ?thesis
    using malformed_structured_token_rejected[OF a, of example_env example_options] b
      malformed_structured_token_rejected[OF c, of example_env example_options] d
    by simp
qed

subsection \<open>C7: the audience check of the standalone verify\<close>

text \<open>
  C7. When the caller of \<^verbatim>\<open>verify(token, options)\<close> gives no \<^verbatim>\<open>options.clients\<close>, the
  audience search is never evaluated. The defaults taken from the client are the issuer,
  the client id and secret, the scope and the key; \<^verbatim>\<open>clients\<close> stays unset. So resolved
  claims are never rejected for their audience, and they are accepted, whatever
  \<^verbatim>\<open>aud\<close> is, when the issuer matches, \<^verbatim>\<open>exp\<close> is not in the past and the scope
  contains the required one.
\<close>

theorem verify_without_clients_accepts_any_audience:
  assumes "case options0 of None \<Rightarrow> True | Some given \<Rightarrow> clients given = None"
  shows "Check Audience \<notin> set (fst (verify e c tok options0)) \<and>
         (options0 = None \<longrightarrow> \<not> nullish (jwks c) \<longrightarrow>
            default_options c options0 =
              Inr \<lparr>issuer = this_issuer c, client_id = this_client_id c,
                   client_secret = this_client_secret c, scope = Some (this_scope c),
                   key = get (jwks c) ''sig'', clients = None\<rparr>) \<and>
         (\<forall>opts. default_options c options0 = Inr opts \<longrightarrow>
            clients opts = None \<and>
            (\<forall>ev result claims.
               parallel e tok opts = (ev, Inr result) \<longrightarrow>
               candidate_claims result = Inr claims \<longrightarrow>
               snd (verify e c tok options0) \<noteq>
                 Rejected (unauthorized ''invalid_token'' ''Mismatching audience'' 403) \<and>
               (\<forall>x cs. get claims ''iss'' = js_of (issuer opts) \<longrightarrow>
                  get claims ''exp'' = JNum x \<longrightarrow> nowSeconds e \<le> x \<longrightarrow>
                  get claims ''scope'' = JStr cs \<longrightarrow>
                  (\<forall>s. scope opts = Some s \<longrightarrow> s \<noteq> [] \<longrightarrow> sublist s cs) \<longrightarrow>
                  snd (verify e c tok options0) = Resolved claims)))"
proof (intro conjI allI impI)
  show "Check Audience \<notin> set (fst (verify e c tok options0))"
  proof (cases "default_options c options0")
    case (Inl err)
    then show ?thesis by (simp add: verify_def)
  next
    case (Inr opts)
    have "clients opts = None"
      using default_options_clients[OF Inr] assms by (simp split: option.splits)
    then show ?thesis
      using Inr by (simp add: verify_def executor_events verify_events_no_audience)
  qed
next
  assume "options0 = None" "\<not> nullish (jwks c)"
  then show "default_options c options0 =
              Inr \<lparr>issuer = this_issuer c, client_id = this_client_id c,
                   client_secret = this_client_secret c, scope = Some (this_scope c),
                   key = get (jwks c) ''sig'', clients = None\<rparr>"
    by (simp add: default_options_none)
next
  fix opts
  assume d: "default_options c options0 = Inr opts"
  show none: "clients opts = None"
    using default_options_clients[OF d] assms by (simp split: option.splits)
  fix ev result claims
  assume r: "parallel e tok opts = (ev, Inr result)" "candidate_claims result = Inr claims"
  show "snd (verify e c tok options0) \<noteq>
          Rejected (unauthorized ''invalid_token'' ''Mismatching audience'' 403)"
  proof
    assume "snd (verify e c tok options0) =
          Rejected (unauthorized ''invalid_token'' ''Mismatching audience'' 403)"
    then have "snd (validate e opts claims) =
          Rejected (unauthorized ''invalid_token'' ''Mismatching audience'' 403) \<or>
        snd (validate e opts claims) =
          Thrown (unauthorized ''invalid_token'' ''Mismatching audience'' 403)"
      using executor_rejected[of tok "AccessToken_verify e tok opts"]
      by (simp add: verify_def d verify_resolved[OF r])
    then show False
      using validate_no_audience_rejection[OF none, of e claims]
        validate_thrown[of e opts claims]
      by (auto simp: unauthorized_def)
  qed
  fix x cs
  assume iss: "get claims ''iss'' = js_of (issuer opts)"
    and ex: "get claims ''exp'' = JNum x" "nowSeconds e \<le> x"
    and sc: "get claims ''scope'' = JStr cs"
      "\<forall>s. scope opts = Some s \<longrightarrow> s \<noteq> [] \<longrightarrow> sublist s cs"
  have ok: "insufficient_scope claims (scope opts) = Inr False"
    using sc(2) by (auto simp: insufficient_scope_string[OF sc(1)])
  have "snd (AccessToken_verify e tok opts) = Resolved claims"
    unfolding verify_resolved[OF r] validate_number[OF ex(1)] ok
    using iss ex(2) none by auto
  then show "snd (verify e c tok options0) = Resolved claims"
    by (simp add: verify_def d executor_resolved)
qed

theorem verify_without_clients_accepts_any_audience_witness:
  "get other_audience_claims ''aud'' = JStr ''someone-else'' \<and>
   this_client_id example_client = Some ''c1'' \<and>
   Check Audience \<notin> set (fst (verify example_env example_client other_audience_token None)) \<and>
   snd (verify example_env example_client other_audience_token None) =
     Resolved other_audience_claims"
proof -
  have j: "\<not> nullish (jwks example_client)" by (simp add: example_client_def)
  note d = default_options_none[OF j]
  show ?thesis
    using verify_without_clients_accepts_any_audience[of None example_env example_client
        other_audience_token] d
      example_parallel(3)[of "\<lparr>issuer = this_issuer example_client,
          client_id = this_client_id example_client,
          client_secret = this_client_secret example_client,
          scope = Some (this_scope example_client),
          key = get (jwks example_client) ''sig'', clients = None\<rparr>"]
      example_candidates[of "JObj [(''alg'', JStr ''RS256'')]" other_audience_claims "''c2lnbmF0dXJl''"]
    by (simp add: other_audience_claims_fields example_client_def example_env_def js_of_def)
qed

subsection \<open>C8: authorizationParams\<close>

text \<open>
  C8. The result of \<^verbatim>\<open>authorizationParams\<close> always has the four required fields:
  \<^verbatim>\<open>response_type\<close> is the caller's or "code", \<^verbatim>\<open>client_id\<close> is the client's,
  \<^verbatim>\<open>redirect_uri\<close> and \<^verbatim>\<open>scope\<close> are the caller's or the client's. A name of the
  allow-list is in the result exactly when the caller gave it a truthy value, with that
  value. Every other name (outside the four required fields and the allow-list) is
  absent from the result.
\<close>

theorem authorizationParams_required_and_allowed:
  "map_of (authorizationParams c options0) ''response_type'' =
     Some (js_or (get (js_or options0 (JObj [])) ''response_type'') (JStr ''code'')) \<and>
   map_of (authorizationParams c options0) ''client_id'' = Some (js_of (this_client_id c)) \<and>
   map_of (authorizationParams c options0) ''redirect_uri'' =
     Some (js_or (get (js_or options0 (JObj [])) ''redirect_uri'') (js_of (this_redirect_uri c))) \<and>
   map_of (authorizationParams c options0) ''scope'' =
     Some (js_or (get (js_or options0 (JObj [])) ''scope'') (JStr (this_scope c))) \<and>
   (\<forall>k \<in> set optionalParameters.
      map_of (authorizationParams c options0) k =
        (if truthy (get (js_or options0 (JObj [])) k) then Some (get (js_or options0 (JObj [])) k)
         else None)) \<and>
   (\<forall>k. k \<notin> set optionalParameters \<longrightarrow>
      k \<notin> {''response_type'', ''client_id'', ''redirect_uri'', ''scope''} \<longrightarrow>
      map_of (authorizationParams c options0) k = None)"
proof -
  have req: "''response_type'' \<notin> set optionalParameters" "''client_id'' \<notin> set optionalParameters"
    "''redirect_uri'' \<notin> set optionalParameters" "''scope'' \<notin> set optionalParameters"
    by (simp_all add: optionalParameters_def)
  have opt: "\<forall>k \<in> set optionalParameters.
      k \<notin> {''response_type'', ''client_id'', ''redirect_uri'', ''scope''}"
    by (simp add: optionalParameters_def)
  show ?thesis
    using req opt by (auto simp: authorizationParams_def Let_def map_of_assign_optional)
qed

theorem authorizationParams_required_and_allowed_witness:
  "map_of (authorizationParams example_client
      (JObj [(''state'', JStr ''xyz''), (''nonce'', JStr ''n1''), (''foo'', JStr ''ignored''),
             (''client_id'', JStr ''intruder'')])) ''foo'' = None \<and>
   map_of (authorizationParams example_client
      (JObj [(''state'', JStr ''xyz''), (''nonce'', JStr ''n1''), (''foo'', JStr ''ignored''),
             (''client_id'', JStr ''intruder'')])) ''state'' = Some (JStr ''xyz'') \<and>
   map_of (authorizationParams example_client
      (JObj [(''state'', JStr ''xyz''), (''nonce'', JStr ''n1''), (''foo'', JStr ''ignored''),
             (''client_id'', JStr ''intruder'')])) ''client_id'' = Some (JStr ''c1'')"
  using authorizationParams_required_and_allowed[of example_client
      "JObj [(''state'', JStr ''xyz''), (''nonce'', JStr ''n1''), (''foo'', JStr ''ignored''),
             (''client_id'', JStr ''intruder'')]"]
  by (simp add: optionalParameters_def js_or_def js_of_def example_client_def)

subsection \<open>C9: token without an authorization code\<close>

text \<open>
  C9. When \<^verbatim>\<open>options.code\<close> is missing and \<^verbatim>\<open>options.responseUri\<close> is missing or
  carries no \<^verbatim>\<open>code\<close> parameter, \<^verbatim>\<open>token\<close> makes no request; on a client whose
  provider configuration is present it rejects with the error "Missing authorization
  code".
\<close>

theorem token_without_code_fails_before_request:
  assumes "\<not> truthy (get (js_or options0 (JObj [])) ''code'')"
    and "\<not> truthy (get (js_or options0 (JObj [])) ''responseUri'') \<or>
         (\<exists>uri. get (js_or options0 (JObj [])) ''responseUri'' = JStr uri \<and>
                \<not> truthy (query_code e uri))"
  shows "fst (token e verify_tokens c options0) = [] \<and>
         (\<not> nullish (configuration c) \<longrightarrow>
            token e verify_tokens c options0 =
              ([], Rejected (Error ''Missing authorization code'')))"
proof -
  have "\<exists>cd. authorization_code e (js_or options0 (JObj [])) = Inr cd \<and> \<not> truthy cd"
  proof (cases "truthy (get (js_or options0 (JObj [])) ''responseUri'')")
    case False
    then show ?thesis using assms(1) by (simp add: authorization_code_def)
  next
    case True
    then obtain uri where "get (js_or options0 (JObj [])) ''responseUri'' = JStr uri"
      "\<not> truthy (query_code e uri)"
      using assms(2) by blast
    then show ?thesis using assms(1) True by (simp add: authorization_code_def)
  qed
  then obtain cd where cd: "authorization_code e (js_or options0 (JObj [])) = Inr cd"
    "\<not> truthy cd"
    by blast
  show ?thesis
    using cd by (simp add: token_def Let_def property_def)
qed

theorem token_without_code_fails_before_request_witness:
  "token example_env (\<lambda>data. ([], Resolved data)) example_client JUndefined =
     ([], Rejected (Error ''Missing authorization code'')) \<and>
   token example_env (\<lambda>data. ([], Resolved data)) example_client
     (JObj [(''responseUri'', JStr ''https://app.example/cb?error=access_denied'')]) =
     ([], Rejected (Error ''Missing authorization code''))"
  using token_without_code_fails_before_request[of JUndefined example_env
      "\<lambda>data. ([], Resolved data)" example_client]
    token_without_code_fails_before_request[of
      "JObj [(''responseUri'', JStr ''https://app.example/cb?error=access_denied'')]" example_env
      "\<lambda>data. ([], Resolved data)" example_client]
  by (simp add: js_or_def example_client_def example_env_def)

subsection \<open>C10: the endpoint of authorizationUri\<close>

text \<open>
  C10. On a client with an authorization endpoint: an object argument without an
  \<^verbatim>\<open>endpoint\<close> field sets the path to \<^verbatim>\<open>undefined\<close>, not to "authorize" (for every
  object argument the path is its \<^verbatim>\<open>endpoint\<close> and the query is built from the
  object); the path "authorize" is the result for an argument that is neither a string
  nor an object; a string argument becomes the path, and the query is then built from
  no caller options at all.
\<close>

theorem authorizationUri_endpoint_from_argument:
  assumes "get (configuration c) ''authorization_endpoint'' = JStr ep"
  shows "(\<forall>kvs. options0 = JObj kvs \<longrightarrow> map_of kvs ''endpoint'' = None \<longrightarrow>
            authorizationUri c options0 =
              Inr \<lparr>parsed = ep, pathname = JUndefined, query = authorizationParams c options0\<rparr>) \<and>
         (\<forall>u. typeof options0 = ''object'' \<longrightarrow> authorizationUri c options0 = Inr u \<longrightarrow>
            pathname u = get options0 ''endpoint'' \<and> query u = authorizationParams c options0) \<and>
         (typeof options0 \<noteq> ''string'' \<longrightarrow> typeof options0 \<noteq> ''object'' \<longrightarrow>
            authorizationUri c options0 =
              Inr \<lparr>parsed = ep, pathname = JStr ''authorize'',
                   query = authorizationParams c (JObj [])\<rparr>) \<and>
         (\<forall>s. options0 = JStr s \<longrightarrow>
            authorizationUri c options0 =
              Inr \<lparr>parsed = ep, pathname = JStr s, query = authorizationParams c (JObj [])\<rparr>)"
proof -
  have cfg: "property (configuration c) ''authorization_endpoint'' = Inr (JStr ep)"
    using assms by (cases "configuration c") (auto simp: property_def)
  show ?thesis
    unfolding authorizationUri_def cfg
    by (cases options0) (auto simp: property_def)
qed

theorem authorizationUri_endpoint_from_argument_witness:
  "authorizationUri example_client
      (JObj [(''state'', JStr ''xyz''), (''nonce'', JStr ''n1''), (''foo'', JStr ''ignored'')]) =
     Inr \<lparr>parsed = ''https://idp.example/authorize'', pathname = JUndefined,
          query = [(''response_type'', JStr ''code''), (''client_id'', JStr ''c1''),
                   (''redirect_uri'', JStr ''https://app.example/cb''),
                   (''scope'', JStr ''openid profile''), (''state'', JStr ''xyz''),
                   (''nonce'', JStr ''n1'')]\<rparr> \<and>
   authorizationUri example_client JUndefined =
     Inr \<lparr>parsed = ''https://idp.example/authorize'', pathname = JStr ''authorize'',
          query = [(''response_type'', JStr ''code''), (''client_id'', JStr ''c1''),
                   (''redirect_uri'', JStr ''https://app.example/cb''),
                   (''scope'', JStr ''openid profile'')]\<rparr> \<and>
   authorizationUri example_client (JStr ''signin'') =
     Inr \<lparr>parsed = ''https://idp.example/authorize'', pathname = JStr ''signin'',
          query = [(''response_type'', JStr ''code''), (''client_id'', JStr ''c1''),
                   (''redirect_uri'', JStr ''https://app.example/cb''),
                   (''scope'', JStr ''openid profile'')]\<rparr>"
proof -
  have cfg: "get (configuration example_client) ''authorization_endpoint'' =
      JStr ''https://idp.example/authorize''"
    by (simp add: example_client_def)
  have empty: "authorizationParams example_client (JObj []) =
      [(''response_type'', JStr ''code''), (''client_id'', JStr ''c1''),
       (''redirect_uri'', JStr ''https://app.example/cb''), (''scope'', JStr ''openid profile'')]"
    by (simp add: authorizationParams_def optionalParameters_def assign_optional_def js_or_def
        js_of_def example_client_def)
  show ?thesis
    using authorizationUri_endpoint_from_argument[OF cfg,
        of "JObj [(''state'', JStr ''xyz''), (''nonce'', JStr ''n1''), (''foo'', JStr ''ignored'')]"]
      authorizationUri_endpoint_from_argument[OF cfg, of JUndefined]
      authorizationUri_endpoint_from_argument[OF cfg, of "JStr ''signin''"]
    by (simp add: authorizationParams_example empty)
qed

end
